theory Spec2Isabelle
  imports Main "HOL-Library.AList"
begin

section \<open>Python values used by the ticket bot\<close>

text \<open>
  The exceptions that can leave a callback of \<^verbatim>\<open>main.py\<close>: \<^verbatim>\<open>discord.Forbidden\<close> from a
  platform call, \<^verbatim>\<open>ValueError\<close> from \<^verbatim>\<open>int(STAFF_ROLE_ID)\<close>, \<^verbatim>\<open>AssertionError\<close> from
  \<^verbatim>\<open>assert interaction.guild is not None\<close>, \<^verbatim>\<open>AttributeError\<close> from calling
  \<^verbatim>\<open>set_permissions\<close> on a thread, which has no such method, and \<^verbatim>\<open>discord.NotFound\<close>
  from a call on a channel that no longer exists.
\<close>

datatype exn = Forbidden | ValueError | AssertionError | AttributeError | NotFound

subsection \<open>Text\<close>

text \<open>
  Strings are byte lists holding UTF-8. \<^verbatim>\<open>str.replace\<close> with an ASCII pattern acts on the
  bytes as it acts on the code points, since no byte of a multi-byte sequence is ASCII.
  An empty pattern matches before every character and at the end.
\<close>

fun replace_from :: "nat \<Rightarrow> string \<Rightarrow> string \<Rightarrow> string \<Rightarrow> string" where
  "replace_from skip old new [] = []"
| "replace_from (Suc k) old new (c # cs) = replace_from k old new cs"
| "replace_from 0 old new (c # cs) =
     (if take (length old) (c # cs) = old
      then new @ replace_from (length old - 1) old new cs
      else c # replace_from 0 old new cs)"

definition replace :: "string \<Rightarrow> string \<Rightarrow> string \<Rightarrow> string" where
  "replace old new s =
     (if old = [] then new @ concat (map (\<lambda>c. c # new) s)
      else replace_from 0 old new s)"

text \<open>\<^verbatim>\<open>sep.join(parts)\<close>.\<close>

fun join :: "string \<Rightarrow> string list \<Rightarrow> string" where
  "join sep [] = []"
| "join sep [x] = x"
| "join sep (x # y # ys) = x @ sep @ join sep (y # ys)"

text \<open>\<^verbatim>\<open>str(n)\<close> for an integer: decimal digits, with a minus sign when negative.\<close>

definition digit_char :: "nat \<Rightarrow> char" where
  "digit_char d = ''0123456789'' ! (d mod 10)"

fun str_nat :: "nat \<Rightarrow> string" where
  "str_nat n = (if n < 10 then [digit_char n] else str_nat (n div 10) @ [digit_char (n mod 10)])"

declare str_nat.simps [simp del]

definition str_int :: "int \<Rightarrow> string" where
  "str_int i = (if i < 0 then CHR ''-'' # str_nat (nat (- i)) else str_nat (nat i))"

text \<open>
  \<^verbatim>\<open>int(s)\<close> accepts the decimal digits and the whitespace of all of Unicode, whose tables
  are not part of the program: the functions that convert take it as the parameter
  \<open>to_int\<close>, which is \<open>None\<close> where \<^verbatim>\<open>int\<close> raises \<^verbatim>\<open>ValueError\<close>. On ASCII text it is
  \<open>ascii_int\<close>: blanks, tabs, line feeds, vertical tabs, form feeds and carriage returns
  around the text are stripped, then comes an optional sign, then decimal digits in which
  single underscores may separate digits, at most 4300 digits in all.
\<close>

definition py_isspace :: "char \<Rightarrow> bool" where
  "py_isspace c = (c \<in> set [CHR '' '', CHR 0x09, CHR 0x0A, CHR 0x0B, CHR 0x0C, CHR 0x0D])"

definition strip :: "string \<Rightarrow> string" where
  "strip s = rev (dropWhile py_isspace (rev (dropWhile py_isspace s)))"

definition is_digit :: "char \<Rightarrow> bool" where
  "is_digit c = (c \<in> set ''0123456789'')"

definition digit_val :: "char \<Rightarrow> int" where
  "digit_val c = int (of_char c) - 48"

fun digits_shape :: "string \<Rightarrow> bool" where
  "digits_shape [] = False"
| "digits_shape [c] = is_digit c"
| "digits_shape (c # d # cs) =
     (is_digit c \<and> (if d = CHR ''_'' then digits_shape cs else digits_shape (d # cs)))"

definition digits_ok :: "string \<Rightarrow> bool" where
  "digits_ok s = (digits_shape s \<and> length (filter (\<lambda>c. c \<noteq> CHR ''_'') s) \<le> 4300)"

definition digits_val :: "string \<Rightarrow> int" where
  "digits_val s = foldl (\<lambda>acc c. 10 * acc + digit_val c) 0 (filter (\<lambda>c. c \<noteq> CHR ''_'') s)"

definition ascii_int :: "string \<Rightarrow> int option" where
  "ascii_int s =
     (case strip s of
        [] \<Rightarrow> None
      | c # cs \<Rightarrow>
          if c = CHR ''-'' then (if digits_ok cs then Some (- digits_val cs) else None)
          else if c = CHR ''+'' then (if digits_ok cs then Some (digits_val cs) else None)
          else if digits_ok (c # cs) then Some (digits_val (c # cs)) else None)"

section \<open>Configuration and members\<close>

text \<open>
  The module reads \<^verbatim>\<open>STAFF_ROLE_ID\<close> and \<^verbatim>\<open>TICKET_CATEGORY\<close> from the environment once.
  \<^verbatim>\<open>os.getenv\<close> gives \<^verbatim>\<open>None\<close> or the text of the variable.
\<close>

record config =
  STAFF_ROLE_ID :: "string option"
  TICKET_CATEGORY_NAME :: string

text \<open>
  A \<^verbatim>\<open>discord.Member\<close>. The code reads \<^verbatim>\<open>id\<close>, \<^verbatim>\<open>name\<close> (the name of the account),
  \<^verbatim>\<open>discriminator\<close> and the ids of \<^verbatim>\<open>roles\<close>. It never reads \<^verbatim>\<open>display_name\<close>, the name
  the platform shows for the member in the guild: the nickname or the global name where
  one is set.
\<close>

record member =
  member_id :: int
  name :: string
  display_name :: string
  discriminator :: string
  roles :: "int list"

text \<open>
  \<^verbatim>\<open>any(r.id == int(STAFF_ROLE_ID) for r in member.roles)\<close>: the generator converts the
  text anew for every role it looks at, so a malformed text raises at the first role and
  is never converted when the member has no role.
\<close>

fun any_role_is :: "(string \<Rightarrow> int option) \<Rightarrow> string \<Rightarrow> int list \<Rightarrow> exn + bool" where
  "any_role_is to_int s [] = Inr False"
| "any_role_is to_int s (r # rs) =
     (case to_int s of
        None \<Rightarrow> Inl ValueError
      | Some k \<Rightarrow> if r = k then Inr True else any_role_is to_int s rs)"

text \<open>
  \<^verbatim>\<open>STAFF_ROLE_ID and any(...)\<close>, the test shared by \<^verbatim>\<open>can_manage\<close>, the claim button and
  the \<^verbatim>\<open>/close\<close> command. \<^verbatim>\<open>None\<close> and the empty text are falsy.
\<close>

definition has_staff_role ::
  "(string \<Rightarrow> int option) \<Rightarrow> config \<Rightarrow> member \<Rightarrow> exn + bool" where
  "has_staff_role to_int cfg m =
     (case STAFF_ROLE_ID cfg of
        None \<Rightarrow> Inr False
      | Some s \<Rightarrow> if s = [] then Inr False else any_role_is to_int s (roles m))"

definition can_manage ::
  "(string \<Rightarrow> int option) \<Rightarrow> config \<Rightarrow> member \<Rightarrow> int \<Rightarrow> exn + bool" where
  "can_manage to_int cfg user opener_id =
     (if member_id user = opener_id then Inr True
      else case has_staff_role to_int cfg user of
             Inl e \<Rightarrow> Inl e
           | Inr b \<Rightarrow> if b then Inr True else Inr False)"

text \<open>
  The staff role the configuration names, when it names one; and the configurations in
  which the variable is absent, empty or a text that \<^verbatim>\<open>int\<close> accepts.
\<close>

definition staff_role_of :: "(string \<Rightarrow> int option) \<Rightarrow> config \<Rightarrow> int option" where
  "staff_role_of to_int cfg =
     (case STAFF_ROLE_ID cfg of
        None \<Rightarrow> None
      | Some s \<Rightarrow> if s = [] then None else to_int s)"

definition well_configured :: "(string \<Rightarrow> int option) \<Rightarrow> config \<Rightarrow> bool" where
  "well_configured to_int cfg =
     (case STAFF_ROLE_ID cfg of
        None \<Rightarrow> True
      | Some s \<Rightarrow> s = [] \<or> to_int s \<noteq> None)"

definition holds_staff :: "(string \<Rightarrow> int option) \<Rightarrow> config \<Rightarrow> member \<Rightarrow> bool" where
  "holds_staff to_int cfg m =
     (case staff_role_of to_int cfg of
        None \<Rightarrow> False
      | Some r \<Rightarrow> r \<in> set (roles m))"

text \<open>
  \<^verbatim>\<open>str(member)\<close> and \<^verbatim>\<open>member.mention\<close> as the library renders them: the name alone for
  an account without discriminator, \<^verbatim>\<open>name#discriminator\<close> otherwise.
\<close>

definition member_str :: "member \<Rightarrow> string" where
  "member_str m =
     (if discriminator m = ''0'' then name m else name m @ ''#'' @ discriminator m)"

definition mention :: "member \<Rightarrow> string" where
  "mention m = ''<@'' @ str_int (member_id m) @ ''>''"

definition role_mention :: "int \<Rightarrow> string" where
  "role_mention r = ''<@&'' @ str_int r @ ''>''"

definition channel_mention :: "int \<Rightarrow> string" where
  "channel_mention c = ''<#'' @ str_int c @ ''>''"

text \<open>
  \<^verbatim>\<open>s[:n]\<close> counts code points; on UTF-8 bytes it keeps the first \<open>n\<close> lead bytes, each
  with the continuation bytes that follow it.
\<close>

definition is_cont :: "char \<Rightarrow> bool" where
  "is_cont c = (128 \<le> (of_char c :: nat) \<and> (of_char c :: nat) < 192)"

fun take_chars :: "nat \<Rightarrow> string \<Rightarrow> string" where
  "take_chars n [] = []"
| "take_chars 0 (c # cs) = (if is_cont c then c # take_chars 0 cs else [])"
| "take_chars (Suc n) (c # cs) =
     (if is_cont c then c # take_chars (Suc n) cs else c # take_chars n cs)"

text \<open>
  \<^verbatim>\<open>str.lower\<close> follows the Unicode case tables, which are not part of the program: the
  functions that lowercase take it as the parameter \<open>lower\<close>. On ASCII text it is
  \<open>ascii_lower\<close>.
\<close>

definition ascii_lower :: "string \<Rightarrow> string" where
  "ascii_lower s =
     map (\<lambda>c. if 65 \<le> (of_char c :: nat) \<and> (of_char c :: nat) \<le> 90
               then char_of ((of_char c :: nat) + 32) else c) s"

subsection \<open>Timestamps\<close>

text \<open>
  A \<^verbatim>\<open>datetime\<close> by the calendar fields it has in UTC, which is what
  \<^verbatim>\<open>dt.astimezone(timezone.utc)\<close> hands to \<^verbatim>\<open>strftime\<close>. The format
  \<^verbatim>\<open>%Y-%m-%d %H:%M:%S UTC\<close> pads every field with zeros (the year to four digits, which
  the years of message timestamps have anyway).
\<close>

record datetime =
  year :: nat
  month :: nat
  day :: nat
  hour :: nat
  minute :: nat
  second :: nat

definition zpad :: "nat \<Rightarrow> nat \<Rightarrow> string" where
  "zpad w n = replicate (w - length (str_nat n)) (CHR ''0'') @ str_nat n"

definition fmt_ts :: "datetime \<Rightarrow> string" where
  "fmt_ts dt =
     zpad 4 (year dt) @ ''-'' @ zpad 2 (month dt) @ ''-'' @ zpad 2 (day dt) @ '' ''
     @ zpad 2 (hour dt) @ '':'' @ zpad 2 (minute dt) @ '':'' @ zpad 2 (second dt) @ '' UTC''"

section \<open>The platform\<close>

text \<open>
  A permission overwrite is keyed by a role or a member; each permission in it is
  granted, denied or left to the defaults (\<open>None\<close>).
\<close>

datatype target = RoleTarget int | MemberTarget int

record overwrite =
  view_channel :: "bool option"
  send_messages :: "bool option"
  read_message_history :: "bool option"
  attach_files :: "bool option"
  manage_channels :: "bool option"
  manage_messages :: "bool option"

definition PermissionOverwrite :: overwrite where
  "PermissionOverwrite =
     \<lparr>view_channel = None, send_messages = None, read_message_history = None,
      attach_files = None, manage_channels = None, manage_messages = None\<rparr>"

record ticket_panel =
  opener_id :: int

record embed =
  title :: string
  description :: string
  footer :: string
  timestamp :: datetime

record message =
  author_text :: string
  author_id :: int
  created_at :: datetime
  content :: string
  attachments :: "string list"
  msg_embed :: "embed option"
  msg_view :: "ticket_panel option"

text \<open>
  A text channel: \<open>ch_history\<close> is what \<^verbatim>\<open>channel.history(limit=None, oldest_first=True)\<close>
  yields, in the order it yields it.
\<close>

record text_channel =
  ch_id :: int
  ch_name :: string
  ch_category :: string
  ch_topic :: "string option"
  ch_overwrites :: "(target \<times> overwrite) list"
  ch_history :: "message list"

record guild =
  default_role :: int
  me :: member
  guild_roles :: "int list"
  guild_members :: "member list"
  categories :: "string list"
  text_channels :: "text_channel list"

text \<open>
  What the platform answers to the calls of one callback: whether the bot's own
  permissions admit each kind of mutating call (when not, the call raises
  \<^verbatim>\<open>discord.Forbidden\<close>), the id it gives a channel it creates, and the current time.
\<close>

record platform =
  allow_create_category :: bool
  allow_create_channel :: bool
  allow_set_permissions :: bool
  allow_delete :: bool
  allow_edit :: bool
  next_channel_id :: int
  clock :: datetime

datatype channel = TextChannel int | Thread int | OtherChannel

record interaction =
  user :: member
  channel :: channel
  in_guild :: bool

text \<open>What a callback does towards the user, in order.\<close>

datatype effect =
    Send_message string bool
  | Edit_message string bool
  | Defer
  | Followup string bool
  | Followup_file string string string
  | Sleep nat

text \<open>
  \<open>Send_message c e\<close> is \<^verbatim>\<open>interaction.response.send_message(c, ephemeral=e)\<close>;
  \<open>Edit_message c v\<close> is \<^verbatim>\<open>interaction.response.edit_message(content=c, view=...)\<close> with
  \<open>v\<close> telling whether the controls stay; \<open>Followup_file c name text\<close> is the ephemeral
  followup carrying the file. A callback ends by returning or by raising; either way the
  effects and the guild are those reached at that point.
\<close>

record outcome =
  raised :: "exn option"
  effects :: "effect list"
  state :: guild

definition returns :: "effect list \<Rightarrow> guild \<Rightarrow> outcome" where
  "returns es g = \<lparr>raised = None, effects = es, state = g\<rparr>"

definition raises :: "exn \<Rightarrow> effect list \<Rightarrow> guild \<Rightarrow> outcome" where
  "raises e es g = \<lparr>raised = Some e, effects = es, state = g\<rparr>"

subsection \<open>Platform calls\<close>

definition lookup_channel :: "guild \<Rightarrow> int \<Rightarrow> text_channel option" where
  "lookup_channel g cid = find (\<lambda>c. ch_id c = cid) (text_channels g)"

definition update_channel :: "guild \<Rightarrow> int \<Rightarrow> (text_channel \<Rightarrow> text_channel) \<Rightarrow> guild" where
  "update_channel g cid f =
     g\<lparr>text_channels := map (\<lambda>c. if ch_id c = cid then f c else c) (text_channels g)\<rparr>"

definition get_member :: "guild \<Rightarrow> int \<Rightarrow> member option" where
  "get_member g uid = find (\<lambda>m. member_id m = uid) (guild_members g)"

definition get_role :: "guild \<Rightarrow> int \<Rightarrow> int option" where
  "get_role g r = (if r \<in> set (guild_roles g) then Some r else None)"

text \<open>
  A call on a channel that is gone raises \<^verbatim>\<open>discord.NotFound\<close>.
  \<^verbatim>\<open>channel.set_permissions(target, ...)\<close>: with permissions it writes the overwrite of the
  target, replacing one that is there; with \<^verbatim>\<open>overwrite=None\<close> it deletes the target's
  overwrite.
\<close>

definition set_permissions ::
  "platform \<Rightarrow> int \<Rightarrow> target \<Rightarrow> overwrite option \<Rightarrow> guild \<Rightarrow> exn + guild" where
  "set_permissions pf cid t ow g =
     (if lookup_channel g cid = None then Inl NotFound
      else if \<not> allow_set_permissions pf then Inl Forbidden
      else Inr (update_channel g cid (\<lambda>c. c\<lparr>ch_overwrites :=
                  (case ow of
                     None \<Rightarrow> AList.delete t (ch_overwrites c)
                   | Some w \<Rightarrow> AList.update t w (ch_overwrites c))\<rparr>)))"

definition channel_delete :: "platform \<Rightarrow> int \<Rightarrow> guild \<Rightarrow> exn + guild" where
  "channel_delete pf cid g =
     (if lookup_channel g cid = None then Inl NotFound
      else if \<not> allow_delete pf then Inl Forbidden
      else Inr (g\<lparr>text_channels := filter (\<lambda>c. ch_id c \<noteq> cid) (text_channels g)\<rparr>))"

definition channel_edit_topic :: "platform \<Rightarrow> int \<Rightarrow> string \<Rightarrow> guild \<Rightarrow> exn + guild" where
  "channel_edit_topic pf cid t g =
     (if lookup_channel g cid = None then Inl NotFound
      else if \<not> allow_edit pf then Inl Forbidden
      else Inr (update_channel g cid (\<lambda>c. c\<lparr>ch_topic := Some t\<rparr>)))"

definition create_text_channel ::
  "platform \<Rightarrow> string \<Rightarrow> string \<Rightarrow> (target \<times> overwrite) list \<Rightarrow> guild \<Rightarrow> exn + guild" where
  "create_text_channel pf nm cat ows g =
     (if \<not> allow_create_channel pf then Inl Forbidden
      else Inr (g\<lparr>text_channels := text_channels g @
                  [\<lparr>ch_id = next_channel_id pf, ch_name = nm, ch_category = cat,
                    ch_topic = None, ch_overwrites = ows, ch_history = []\<rparr>]\<rparr>))"

definition channel_send :: "int \<Rightarrow> message \<Rightarrow> guild \<Rightarrow> guild" where
  "channel_send cid msg g = update_channel g cid (\<lambda>c. c\<lparr>ch_history := ch_history c @ [msg]\<rparr>)"

section \<open>Helpers\<close>

definition get_or_create_category :: "platform \<Rightarrow> string \<Rightarrow> guild \<Rightarrow> exn + guild" where
  "get_or_create_category pf nm g =
     (if nm \<in> set (categories g) then Inr g
      else if \<not> allow_create_category pf then Inl Forbidden
      else Inr (g\<lparr>categories := categories g @ [nm]\<rparr>))"

text \<open>
  The dictionary literal of \<^verbatim>\<open>build_ticket_overwrites\<close>, entry after entry; a later entry
  with an equal key replaces the earlier one.
\<close>

definition build_ticket_overwrites ::
  "guild \<Rightarrow> member \<Rightarrow> int option \<Rightarrow> (target \<times> overwrite) list" where
  "build_ticket_overwrites g opener staff_role =
     (let overwrites =
        AList.update (MemberTarget (member_id (me g)))
          (PermissionOverwrite\<lparr>view_channel := Some True, send_messages := Some True,
             manage_channels := Some True, read_message_history := Some True,
             attach_files := Some True\<rparr>)
        (AList.update (MemberTarget (member_id opener))
          (PermissionOverwrite\<lparr>view_channel := Some True, send_messages := Some True,
             read_message_history := Some True, attach_files := Some True\<rparr>)
        (AList.update (RoleTarget (default_role g))
          (PermissionOverwrite\<lparr>view_channel := Some False\<rparr>) []))
      in case staff_role of
           None \<Rightarrow> overwrites
         | Some r \<Rightarrow>
             AList.update (RoleTarget r)
               (PermissionOverwrite\<lparr>view_channel := Some True, send_messages := Some True,
                  read_message_history := Some True, manage_messages := Some True,
                  attach_files := Some True\<rparr>) overwrites)"

section \<open>Participant selection\<close>

text \<open>
  \<^verbatim>\<open>AddUserView.select_user\<close> and \<^verbatim>\<open>RemoveUserView.select_user\<close>; \<open>selected\<close> is the id of
  \<^verbatim>\<open>self.user_select.values[0]\<close>.
\<close>

definition AddUserView_select_user ::
  "(string \<Rightarrow> int option) \<Rightarrow> config \<Rightarrow> platform \<Rightarrow> int \<Rightarrow> int \<Rightarrow> interaction \<Rightarrow> guild
     \<Rightarrow> outcome" where
  "AddUserView_select_user to_int cfg pf opener selected i g =
     (case can_manage to_int cfg (user i) opener of
        Inl e \<Rightarrow> raises e [] g
      | Inr False \<Rightarrow>
          returns [Send_message ''You are not allowed to manage this ticket.'' True] g
      | Inr True \<Rightarrow>
          if channel i = OtherChannel
          then returns [Send_message ''Invalid channel.'' True] g
          else
            (case (if in_guild i then get_member g selected else None) of
               None \<Rightarrow> returns [Send_message ''User is not in this server.'' True] g
             | Some target_member \<Rightarrow>
                 (case channel i of
                    TextChannel cid \<Rightarrow>
                      (case set_permissions pf cid (MemberTarget (member_id target_member))
                              (Some (PermissionOverwrite\<lparr>view_channel := Some True,
                                 send_messages := Some True, read_message_history := Some True,
                                 attach_files := Some True\<rparr>)) g of
                         Inr g' \<Rightarrow>
                           returns [Send_message (''Added '' @ mention target_member
                                      @ '' to this ticket.'') True] g'
                       | Inl Forbidden \<Rightarrow>
                           returns [Send_message
                                      ''Missing permission to modify channel permissions.'' True] g
                       | Inl e \<Rightarrow> raises e [] g)
                  | _ \<Rightarrow> raises AttributeError [] g)))"

definition RemoveUserView_select_user ::
  "(string \<Rightarrow> int option) \<Rightarrow> config \<Rightarrow> platform \<Rightarrow> int \<Rightarrow> int \<Rightarrow> interaction \<Rightarrow> guild
     \<Rightarrow> outcome" where
  "RemoveUserView_select_user to_int cfg pf opener selected i g =
     (case can_manage to_int cfg (user i) opener of
        Inl e \<Rightarrow> raises e [] g
      | Inr False \<Rightarrow>
          returns [Send_message ''You are not allowed to manage this ticket.'' True] g
      | Inr True \<Rightarrow>
          if channel i = OtherChannel
          then returns [Send_message ''Invalid channel.'' True] g
          else
            (case (if in_guild i then get_member g selected else None) of
               None \<Rightarrow> returns [Send_message ''User is not in this server.'' True] g
             | Some target_member \<Rightarrow>
                 (case channel i of
                    TextChannel cid \<Rightarrow>
                      (case set_permissions pf cid (MemberTarget (member_id target_member))
                              None g of
                         Inr g' \<Rightarrow>
                           returns [Send_message (''Removed '' @ mention target_member
                                      @ '' from this ticket.'') True] g'
                       | Inl Forbidden \<Rightarrow>
                           returns [Send_message
                                      ''Missing permission to modify channel permissions.'' True] g
                       | Inl e \<Rightarrow> raises e [] g)
                  | _ \<Rightarrow> raises AttributeError [] g)))"

section \<open>The ticket panel\<close>

text \<open>
  The texts with characters outside ASCII are written with the bytes the source file
  holds.
\<close>

definition ellipsis :: string where
  "ellipsis = [CHR 0xC3, CHR 0xA2, CHR 0xE2, CHR 0x82, CHR 0xAC, CHR 0xC2, CHR 0xA6]"

definition dash :: string where
  "dash = [CHR 0xC3, CHR 0xA2, CHR 0xE2, CHR 0x82, CHR 0xAC, CHR 0xE2, CHR 0x80, CHR 0x9D]"

definition bullet :: string where
  "bullet = [CHR 0xC3, CHR 0xA2, CHR 0xE2, CHR 0x82, CHR 0xAC, CHR 0xC2, CHR 0xA2]"

definition ticket_emoji :: string where
  "ticket_emoji = [CHR 0xC3, CHR 0xB0, CHR 0xC5, CHR 0xB8, CHR 0xC5, CHR 0xBD, CHR 0xC2, CHR 0xAB]"

definition TicketPanel_close ::
  "(string \<Rightarrow> int option) \<Rightarrow> config \<Rightarrow> platform \<Rightarrow> ticket_panel \<Rightarrow> interaction \<Rightarrow> guild
     \<Rightarrow> outcome" where
  "TicketPanel_close to_int cfg pf self i g =
     (case can_manage to_int cfg (user i) (opener_id self) of
        Inl e \<Rightarrow> raises e [] g
      | Inr False \<Rightarrow>
          returns [Send_message ''You are not allowed to close this ticket.'' True] g
      | Inr True \<Rightarrow>
          (let acks = [Send_message (''Closing in 5 seconds'' @ ellipsis) True, Sleep 5]
           in case channel i of
                TextChannel cid \<Rightarrow>
                  (case channel_delete pf cid g of
                     Inr g' \<Rightarrow> returns acks g'
                   | Inl Forbidden \<Rightarrow>
                       returns (acks @ [Followup ''I lack permission to delete this channel.''
                                          True]) g
                   | Inl e \<Rightarrow> raises e acks g)
              | _ \<Rightarrow> returns acks g))"

text \<open>The transcript: one line per message of the history, in the order of the history.\<close>

definition transcript_line :: "message \<Rightarrow> string" where
  "transcript_line msg =
     (let author = author_text msg @ '' ('' @ str_int (author_id msg) @ '')'';
          time_str = fmt_ts (created_at msg);
          content = replace [CHR 0x0A] [CHR 0x5C, CHR ''n''] (content msg);
          attach_info = (if attachments msg \<noteq> []
                         then '' | Attachments: '' @ join '', '' (attachments msg)
                         else [])
      in ''['' @ time_str @ ''] '' @ author @ '': '' @ content @ attach_info)"

definition transcript_text :: "message list \<Rightarrow> string" where
  "transcript_text history =
     (let lines = map transcript_line history
      in if lines \<noteq> [] then join [CHR 0x0A] lines else ''No messages.'')"

definition TicketPanel_transcript ::
  "(string \<Rightarrow> int option) \<Rightarrow> config \<Rightarrow> ticket_panel \<Rightarrow> interaction \<Rightarrow> guild \<Rightarrow> outcome" where
  "TicketPanel_transcript to_int cfg self i g =
     (case can_manage to_int cfg (user i) (opener_id self) of
        Inl e \<Rightarrow> raises e [] g
      | Inr False \<Rightarrow>
          returns [Send_message ''You are not allowed to get a transcript.'' True] g
      | Inr True \<Rightarrow>
          (case channel i of
             TextChannel cid \<Rightarrow>
               (case lookup_channel g cid of
                  None \<Rightarrow> raises NotFound [Defer] g
                | Some c \<Rightarrow>
                    returns [Defer,
                             Followup_file ''Here is the transcript.''
                               (''transcript-'' @ ch_name c @ ''.txt'')
                               (transcript_text (ch_history c))] g)
           | _ \<Rightarrow> returns [Send_message ''Invalid channel.'' True] g))"

text \<open>
  The claim button. \<^verbatim>\<open>not STAFF_ROLE_ID or not any(...)\<close> evaluates what
  \<open>has_staff_role\<close> evaluates, in the same order. The panel's opener id is not read.
\<close>

definition TicketPanel_claim ::
  "(string \<Rightarrow> int option) \<Rightarrow> config \<Rightarrow> platform \<Rightarrow> ticket_panel \<Rightarrow> interaction \<Rightarrow> guild
     \<Rightarrow> outcome" where
  "TicketPanel_claim to_int cfg pf self i g =
     (case has_staff_role to_int cfg (user i) of
        Inl e \<Rightarrow> raises e [] g
      | Inr False \<Rightarrow> returns [Send_message ''Only staff can claim tickets.'' True] g
      | Inr True \<Rightarrow>
          (case channel i of
             TextChannel cid \<Rightarrow>
               (let topic = (case lookup_channel g cid of
                               Some c \<Rightarrow> (case ch_topic c of Some t \<Rightarrow> t | None \<Rightarrow> [])
                             | None \<Rightarrow> []);
                    claimed_note = ''Claimed by '' @ member_str (user i) @ '' at ''
                                   @ fmt_ts (clock pf);
                    announce = Send_message (''Ticket claimed by '' @ mention (user i) @ ''.'')
                                 False
                in case channel_edit_topic pf cid
                          (take_chars 1024 (topic @ '' | '' @ claimed_note)) g of
                     Inr g' \<Rightarrow> returns [announce] g'
                   | Inl Forbidden \<Rightarrow> returns [announce] g
                   | Inl e \<Rightarrow> raises e [] g)
           | _ \<Rightarrow> returns [Send_message ''Invalid channel.'' True] g))"

section \<open>The ticket configurator\<close>



record ticket_open_view =
  opener :: member
  reason :: "string option"
  priority :: "string option"
  confirm_disabled :: bool

definition TicketOpenView :: "member \<Rightarrow> ticket_open_view" where
  "TicketOpenView m = \<lparr>opener = m, reason = None, priority = None, confirm_disabled = True\<rparr>"

text \<open>Truth value of a \<^verbatim>\<open>str | None\<close>: \<^verbatim>\<open>None\<close> and the empty text are falsy.\<close>

definition truthy :: "string option \<Rightarrow> bool" where
  "truthy x = (case x of None \<Rightarrow> False | Some s \<Rightarrow> s \<noteq> [])"

definition or_else :: "string option \<Rightarrow> string \<Rightarrow> string" where
  "or_else x d = (if truthy x then the x else d)"

definition summary_text :: "ticket_open_view \<Rightarrow> string" where
  "summary_text self =
     ''**Reason:** '' @ or_else (reason self) dash @ [CHR 0x0A]
     @ ''**Priority:** '' @ or_else (priority self) dash"

definition prompt :: string where
  "prompt = ''Please choose a reason and a priority, then press **Create Ticket**.''
            @ [CHR 0x0A, CHR 0x0A]"

definition refresh :: "ticket_open_view \<Rightarrow> ticket_open_view \<times> effect list" where
  "refresh self =
     (let self' = self\<lparr>confirm_disabled := \<not> (truthy (reason self) \<and> truthy (priority self))\<rparr>
      in (self', [Edit_message (prompt @ summary_text self') True]))"

definition on_reason :: "string \<Rightarrow> ticket_open_view \<Rightarrow> ticket_open_view \<times> effect list" where
  "on_reason v self = refresh (self\<lparr>reason := Some v\<rparr>)"

definition on_priority :: "string \<Rightarrow> ticket_open_view \<Rightarrow> ticket_open_view \<times> effect list" where
  "on_priority v self = refresh (self\<lparr>priority := Some v\<rparr>)"

definition on_cancel :: "ticket_open_view \<Rightarrow> effect list" where
  "on_cancel self = [Edit_message ''Ticket creation cancelled.'' False]"

definition safe_name :: "(string \<Rightarrow> string) \<Rightarrow> member \<Rightarrow> string" where
  "safe_name lower m = replace '' '' ''-'' (lower (name m))"

definition channel_name :: "(string \<Rightarrow> string) \<Rightarrow> member \<Rightarrow> string" where
  "channel_name lower m =
     ''ticket-'' @ safe_name lower m @ ''-''
     @ (if discriminator m \<noteq> ''0'' then discriminator m else str_int (member_id m))"

text \<open>\<^verbatim>\<open>f"{x}"\<close> for a \<^verbatim>\<open>str | None\<close>.\<close>

definition fstr :: "string option \<Rightarrow> string" where
  "fstr x = (case x of None \<Rightarrow> ''None'' | Some s \<Rightarrow> s)"

definition ticket_embed :: "platform \<Rightarrow> ticket_open_view \<Rightarrow> embed" where
  "ticket_embed pf self =
     \<lparr>title = ticket_emoji @ '' Ticket Created'',
      description =
        ''Hello '' @ mention (opener self) @ ''! A staff member will assist you shortly.''
        @ [CHR 0x0A, CHR 0x0A]
        @ ''**Reason:** '' @ fstr (reason self) @ [CHR 0x0A]
        @ ''**Priority:** '' @ fstr (priority self) @ [CHR 0x0A, CHR 0x0A]
        @ ''Use the buttons below to manage this ticket.'',
      footer = ''Opened by '' @ member_str (opener self) @ '' '' @ bullet @ '' ID ''
               @ str_int (member_id (opener self)),
      timestamp = clock pf\<rparr>"

text \<open>
  The message \<^verbatim>\<open>channel.send\<close> posts into the new channel: written by the bot, carrying
  the embed and a fresh panel bound to the opener.
\<close>

definition ticket_message ::
  "platform \<Rightarrow> guild \<Rightarrow> ticket_open_view \<Rightarrow> int option \<Rightarrow> message" where
  "ticket_message pf g self staff_role =
     \<lparr>author_text = member_str (me g), author_id = member_id (me g), created_at = clock pf,
      content = (case staff_role of Some r \<Rightarrow> role_mention r | None \<Rightarrow> []),
      attachments = [], msg_embed = Some (ticket_embed pf self),
      msg_view = Some \<lparr>opener_id = member_id (opener self)\<rparr>\<rparr>"

definition on_confirm ::
  "(string \<Rightarrow> string) \<Rightarrow> (string \<Rightarrow> int option) \<Rightarrow> config \<Rightarrow> platform \<Rightarrow> ticket_open_view
     \<Rightarrow> interaction \<Rightarrow> guild \<Rightarrow> outcome" where
  "on_confirm lower to_int cfg pf self i g =
     (if \<not> (truthy (reason self) \<and> truthy (priority self))
      then returns [Send_message ''Please select both fields first.'' True] g
      else if \<not> in_guild i then raises AssertionError [] g
      else
        (case (if truthy (STAFF_ROLE_ID cfg)
               then (case to_int (the (STAFF_ROLE_ID cfg)) of
                       None \<Rightarrow> Inl ValueError
                     | Some r \<Rightarrow> Inr (get_role g r))
               else Inr None) of
           Inl e \<Rightarrow> raises e [] g
         | Inr staff_role \<Rightarrow>
             (case get_or_create_category pf (TICKET_CATEGORY_NAME cfg) g of
                Inl e \<Rightarrow> raises e [] g
              | Inr g1 \<Rightarrow>
                  (case create_text_channel pf (channel_name lower (opener self))
                          (TICKET_CATEGORY_NAME cfg)
                          (build_ticket_overwrites g1 (opener self) staff_role) g1 of
                     Inl e \<Rightarrow> raises e [] g1
                   | Inr g2 \<Rightarrow>
                       returns [Edit_message (''Your ticket has been created: ''
                                  @ channel_mention (next_channel_id pf)) False]
                         (channel_send (next_channel_id pf)
                            (ticket_message pf g2 self staff_role) g2)))))"

text \<open>
  The menu as the user drives it: each pick runs its callback. The select controls offer
  the preset labels only.
\<close>

datatype menu_event = Pick_reason string | Pick_priority string


fun dispatch :: "ticket_open_view \<Rightarrow> menu_event \<Rightarrow> ticket_open_view" where
  "dispatch self (Pick_reason v) = fst (on_reason v self)"
| "dispatch self (Pick_priority v) = fst (on_priority v self)"

definition run_menu :: "member \<Rightarrow> menu_event list \<Rightarrow> ticket_open_view" where
  "run_menu m evs = foldl dispatch (TicketOpenView m) evs"

section \<open>Startup\<close>

text \<open>\<^verbatim>\<open>on_ready\<close> registers one panel for all tickets: \<^verbatim>\<open>TicketPanel(opener_id=0)\<close>.\<close>

definition on_ready_panel :: ticket_panel where
  "on_ready_panel = \<lparr>opener_id = 0\<rparr>"

section \<open>Example values\<close>

text \<open>
  A configuration naming staff role 42, one whose staff role text is no number, one
  without staff role; a staff member, the opener of a ticket (not staff, shown in the guild
  under another name than the account's), and a bystander.
\<close>

definition cfg_staff :: config where
  "cfg_staff = \<lparr>STAFF_ROLE_ID = Some ''42'', TICKET_CATEGORY_NAME = ''Tickets''\<rparr>"

definition cfg_abc :: config where
  "cfg_abc = \<lparr>STAFF_ROLE_ID = Some ''abc'', TICKET_CATEGORY_NAME = ''Tickets''\<rparr>"

definition cfg_plain :: config where
  "cfg_plain = \<lparr>STAFF_ROLE_ID = None, TICKET_CATEGORY_NAME = ''Tickets''\<rparr>"

definition staffer :: member where
  "staffer = \<lparr>member_id = 7, name = ''Sam'', display_name = ''Sam'', discriminator = ''0'',
               roles = [5, 42]\<rparr>"

definition alice :: member where
  "alice = \<lparr>member_id = 11, name = ''Alice B'', display_name = ''Ally'', discriminator = ''0'',
             roles = [5]\<rparr>"

definition bob :: member where
  "bob = \<lparr>member_id = 12, name = ''Bob'', display_name = ''Bob'', discriminator = ''1234'',
           roles = [5]\<rparr>"

text \<open>
  The bot, a platform that admits every call and one that admits none, a guild without
  tickets, and the same guild with the ticket channel of \<open>alice\<close>.
\<close>

definition bot :: member where
  "bot = \<lparr>member_id = 1, name = ''TicketBot'', display_name = ''TicketBot'',
           discriminator = ''0'', roles = [5]\<rparr>"

definition noon :: datetime where
  "noon = \<lparr>year = 2024, month = 3, day = 9, hour = 12, minute = 5, second = 0\<rparr>"

definition pf_ok :: platform where
  "pf_ok = \<lparr>allow_create_category = True, allow_create_channel = True,
            allow_set_permissions = True, allow_delete = True, allow_edit = True,
            next_channel_id = 100, clock = noon\<rparr>"

definition pf_denied :: platform where
  "pf_denied = \<lparr>allow_create_category = False, allow_create_channel = False,
                allow_set_permissions = False, allow_delete = False, allow_edit = False,
                next_channel_id = 100, clock = noon\<rparr>"

definition guild0 :: guild where
  "guild0 = \<lparr>default_role = 5, me = bot, guild_roles = [5, 42],
             guild_members = [bot, staffer, alice, bob], categories = [''Tickets''],
             text_channels = []\<rparr>"

definition ticket_chan :: text_channel where
  "ticket_chan = \<lparr>ch_id = 100, ch_name = ''ticket-alice-b-11'', ch_category = ''Tickets'',
                  ch_topic = None,
                  ch_overwrites = build_ticket_overwrites guild0 alice (Some 42),
                  ch_history = []\<rparr>"

definition guild1 :: guild where
  "guild1 = guild0\<lparr>text_channels := [ticket_chan]\<rparr>"

definition alice_panel :: ticket_panel where
  "alice_panel = \<lparr>opener_id = 11\<rparr>"

definition staffer_panel :: ticket_panel where
  "staffer_panel = \<lparr>opener_id = 7\<rparr>"

definition pressed_by :: "member \<Rightarrow> interaction" where
  "pressed_by m = \<lparr>user = m, channel = TextChannel 100, in_guild = True\<rparr>"

text \<open>The guild with a ticket that \<open>staffer\<close> opened.\<close>

definition staffer_chan :: text_channel where
  "staffer_chan = \<lparr>ch_id = 100, ch_name = ''ticket-sam-7'', ch_category = ''Tickets'',
                   ch_topic = None,
                   ch_overwrites = build_ticket_overwrites guild0 staffer (Some 42),
                   ch_history = []\<rparr>"

definition guild2 :: guild where
  "guild2 = guild0\<lparr>text_channels := [staffer_chan]\<rparr>"

text \<open>The menu after \<open>alice\<close> has picked a reason and a priority, and after a reason only.\<close>

definition menu_done :: ticket_open_view where
  "menu_done = run_menu alice [Pick_reason ''Technical Issue'', Pick_priority ''High'']"


text \<open>
  The lines of a text, \<^verbatim>\<open>text.split(sep)\<close> for a one-character separator; and the messages
  whose author text and attachment URLs hold no line break.
\<close>

fun split_on :: "char \<Rightarrow> string \<Rightarrow> string list" where
  "split_on sep [] = [[]]"
| "split_on sep (c # cs) =
     (if c = sep then [] # split_on sep cs
      else case split_on sep cs of
             [] \<Rightarrow> [[c]]
           | l # ls \<Rightarrow> (c # l) # ls)"

definition one_line_fields :: "message \<Rightarrow> bool" where
  "one_line_fields msg =
     (CHR 0x0A \<notin> set (author_text msg) \<and> (\<forall>u\<in>set (attachments msg). CHR 0x0A \<notin> set u))"

text \<open>Two messages, the first with a line break in its content, the second with files.\<close>

definition msg1 :: message where
  "msg1 = \<lparr>author_text = ''Alice B'', author_id = 11, created_at = noon,
           content = ''hi'' @ [CHR 0x0A] @ ''there'', attachments = [],
           msg_embed = None, msg_view = None\<rparr>"

definition msg2 :: message where
  "msg2 = \<lparr>author_text = ''Sam'', author_id = 7,
           created_at = \<lparr>year = 2024, month = 3, day = 9, hour = 12, minute = 6, second = 30\<rparr>,
           content = ''ok'', attachments = [''https://x/a.png'', ''https://x/b.png''],
           msg_embed = None, msg_view = None\<rparr>"

text \<open>The ticket channel of \<open>alice\<close> once the two messages are in it.\<close>

definition chat_chan :: text_channel where
  "chat_chan = ticket_chan\<lparr>ch_history := [msg1, msg2]\<rparr>"

definition guild3 :: guild where
  "guild3 = guild0\<lparr>text_channels := [chat_chan]\<rparr>"

section \<open>Access policy\<close>

lemma any_role_is_Some:
  "to_int s = Some k \<Longrightarrow> any_role_is to_int s rs = Inr (k \<in> set rs)"
  by (induction rs) auto

lemma any_role_is_None:
  "to_int s = None \<Longrightarrow> any_role_is to_int s rs \<noteq> Inr True"
  by (cases rs) auto

lemma has_staff_role_True:
  "has_staff_role to_int cfg m = Inr True \<longleftrightarrow> holds_staff to_int cfg m"
proof (cases "STAFF_ROLE_ID cfg")
  case None
  then show ?thesis
    by (simp add: has_staff_role_def holds_staff_def staff_role_of_def)
next
  case (Some s)
  show ?thesis
  proof (cases "to_int s")
    case None
    with Some any_role_is_None [of to_int s "roles m"] show ?thesis
      by (simp add: has_staff_role_def holds_staff_def staff_role_of_def)
  next
    case (Some k)
    with \<open>STAFF_ROLE_ID cfg = Some s\<close> any_role_is_Some [of to_int s k "roles m"] show ?thesis
      by (simp add: has_staff_role_def holds_staff_def staff_role_of_def)
  qed
qed

lemma has_staff_role_well:
  "well_configured to_int cfg \<Longrightarrow> has_staff_role to_int cfg m = Inr (holds_staff to_int cfg m)"
  by (auto simp: well_configured_def has_staff_role_def holds_staff_def staff_role_of_def
        any_role_is_Some split: option.splits)

lemma can_manage_True:
  "can_manage to_int cfg a oid = Inr True \<longleftrightarrow> member_id a = oid \<or> holds_staff to_int cfg a"
  using has_staff_role_True [of to_int cfg a]
  by (cases "has_staff_role to_int cfg a") (auto simp: can_manage_def)

lemma can_manage_well:
  "well_configured to_int cfg \<Longrightarrow>
   can_manage to_int cfg a oid = Inr (member_id a = oid \<or> holds_staff to_int cfg a)"
  using has_staff_role_well [of to_int cfg a] by (simp add: can_manage_def)

lemma has_staff_role_malformed:
  "\<not> well_configured to_int cfg \<Longrightarrow> roles m \<noteq> [] \<Longrightarrow>
   has_staff_role to_int cfg m = Inl ValueError"
  by (cases "roles m")
     (auto simp: well_configured_def has_staff_role_def split: option.splits)

lemma has_staff_role_no_roles:
  "roles m = [] \<Longrightarrow> has_staff_role to_int cfg m = Inr False"
  by (simp add: has_staff_role_def split: option.splits)

lemma holds_staff_no_roles:
  "roles m = [] \<Longrightarrow> \<not> holds_staff to_int cfg m"
  by (simp add: holds_staff_def split: option.splits)

lemma has_staff_role_returns:
  "well_configured to_int cfg \<or> roles m = [] \<Longrightarrow>
   has_staff_role to_int cfg m = Inr (holds_staff to_int cfg m)"
  using has_staff_role_well [of to_int cfg m] has_staff_role_no_roles [of m to_int cfg]
    holds_staff_no_roles [of m to_int cfg]
  by auto

lemma can_manage_returns:
  "well_configured to_int cfg \<or> roles a = [] \<Longrightarrow>
   can_manage to_int cfg a oid = Inr (member_id a = oid \<or> holds_staff to_int cfg a)"
  using has_staff_role_returns [of to_int cfg a] by (simp add: can_manage_def)

lemma can_manage_raises:
  "\<not> well_configured to_int cfg \<Longrightarrow> roles a \<noteq> [] \<Longrightarrow> member_id a \<noteq> oid \<Longrightarrow>
   can_manage to_int cfg a oid = Inl ValueError"
  by (simp add: can_manage_def has_staff_role_malformed)

lemma ascii_int_abc: "ascii_int ''abc'' = None"
  by (simp add: ascii_int_def strip_def py_isspace_def digits_ok_def is_digit_def)

lemma malformed_cfg_abc: "\<not> well_configured ascii_int cfg_abc"
  by (simp add: well_configured_def cfg_abc_def ascii_int_abc)

lemma holds_staff_cfg_abc: "\<not> holds_staff ascii_int cfg_abc m"
  by (simp add: holds_staff_def staff_role_of_def cfg_abc_def ascii_int_abc)

lemma bob_facts: "member_id bob = 12" "roles bob \<noteq> []"
  by (simp_all add: bob_def)

lemma ascii_int_42: "ascii_int ''42'' = Some 42"
  by (simp add: ascii_int_def strip_def py_isspace_def digits_ok_def is_digit_def digits_val_def
        digit_val_def)

lemma well_configured_cfg_staff: "well_configured ascii_int cfg_staff"
  by (simp add: well_configured_def cfg_staff_def ascii_int_42)


lemma staff_role_of_cfg_staff: "staff_role_of ascii_int cfg_staff = Some 42"
  by (simp add: staff_role_of_def cfg_staff_def ascii_int_42)

lemma holds_staff_staffer: "holds_staff ascii_int cfg_staff staffer"
  by (simp add: holds_staff_def staff_role_of_cfg_staff staffer_def)

lemma holds_staff_alice: "\<not> holds_staff ascii_int cfg_staff alice"
  by (simp add: holds_staff_def staff_role_of_cfg_staff alice_def)

lemma holds_staff_bob: "\<not> holds_staff ascii_int cfg_staff bob"
  by (simp add: holds_staff_def staff_role_of_cfg_staff bob_def)

text \<open>
  Claim C1, as the code has it. \<^verbatim>\<open>can_manage\<close> returns true exactly when the actor's id
  equals the opener id the panel is bound to, or the staff role is configured and the
  actor holds a role with that id. In every other case it returns false when the staff
  role text is absent, empty or a text that \<^verbatim>\<open>int\<close> accepts, and also when the actor holds
  no role; when the text is one that \<^verbatim>\<open>int\<close> rejects and the actor is not the opener and
  holds a role, it raises \<^verbatim>\<open>ValueError\<close> instead of returning.
\<close>

theorem can_manage_cases:
  "(can_manage to_int cfg a oid = Inr True \<longleftrightarrow> member_id a = oid \<or> holds_staff to_int cfg a) \<and>
   (well_configured to_int cfg \<or> roles a = [] \<longrightarrow>
      can_manage to_int cfg a oid = Inr (member_id a = oid \<or> holds_staff to_int cfg a)) \<and>
   (\<not> well_configured to_int cfg \<and> roles a \<noteq> [] \<and> member_id a \<noteq> oid \<longrightarrow>
      can_manage to_int cfg a oid = Inl ValueError)"
  using can_manage_True [of to_int cfg a oid] can_manage_returns [of to_int cfg a oid]
    can_manage_raises [of to_int cfg a oid]
  by blast

theorem can_manage_cases_witness:
  "well_configured ascii_int cfg_staff \<and>
   can_manage ascii_int cfg_staff staffer 11 = Inr True \<and>
   can_manage ascii_int cfg_staff alice 11 = Inr True \<and>
   can_manage ascii_int cfg_staff bob 11 = Inr False \<and>
   \<not> well_configured ascii_int cfg_abc \<and> roles bob \<noteq> [] \<and> member_id bob \<noteq> 11 \<and>
   can_manage ascii_int cfg_abc bob 11 = Inl ValueError \<and>
   can_manage ascii_int cfg_abc alice 11 = Inr True"
proof -
  have i: "member_id staffer \<noteq> 11" "member_id alice = 11" "member_id bob \<noteq> 11"
    by (simp_all add: staffer_def alice_def bob_def)
  from can_manage_cases [of ascii_int cfg_staff staffer 11] holds_staff_staffer
  have 1: "can_manage ascii_int cfg_staff staffer 11 = Inr True"
    by blast
  from can_manage_cases [of ascii_int cfg_staff alice 11] i
  have 2: "can_manage ascii_int cfg_staff alice 11 = Inr True"
    by blast
  from can_manage_cases [of ascii_int cfg_staff bob 11] well_configured_cfg_staff
    holds_staff_bob i
  have 3: "can_manage ascii_int cfg_staff bob 11 = Inr False"
    by simp
  from can_manage_cases [of ascii_int cfg_abc bob 11] malformed_cfg_abc bob_facts i
  have 4: "can_manage ascii_int cfg_abc bob 11 = Inl ValueError"
    by blast
  from can_manage_cases [of ascii_int cfg_abc alice 11] i
  have 5: "can_manage ascii_int cfg_abc alice 11 = Inr True"
    by blast
  show ?thesis
    using 1 2 3 4 5 well_configured_cfg_staff malformed_cfg_abc bob_facts i by simp
qed

text \<open>
  The claim as the specification words it fails for a staff role text that is no number:
  with \<^verbatim>\<open>STAFF_ROLE_ID=abc\<close>, \<open>bob\<close>, who is not the opener and holds no staff role, does
  not get false; the call raises.
\<close>

theorem can_manage_malformed_raises:
  "member_id bob \<noteq> 11 \<and> \<not> holds_staff ascii_int cfg_abc bob \<and>
   can_manage ascii_int cfg_abc bob 11 = Inl ValueError \<and>
   can_manage ascii_int cfg_abc bob 11 \<noteq> Inr False"
proof -
  have n: "member_id bob \<noteq> 11"
    by (simp add: bob_def)
  have "can_manage ascii_int cfg_abc bob 11 = Inl ValueError"
    using malformed_cfg_abc bob_facts(2) n by (rule can_manage_raises)
  then show ?thesis
    using n holds_staff_cfg_abc by simp
qed

text \<open>
  Claim C8. The panel registered at startup is bound to opener id 0. For every actor whose
  id is not 0 it grants access exactly when the staff role is configured and the actor
  holds it: the comparison of ids never succeeds, whoever opened the ticket.
\<close>

theorem restored_panel_staff_only:
  "member_id a \<noteq> 0 \<Longrightarrow>
   opener_id on_ready_panel = 0 \<and>
   (can_manage to_int cfg a (opener_id on_ready_panel) = Inr True \<longleftrightarrow> holds_staff to_int cfg a) \<and>
   (well_configured to_int cfg \<longrightarrow>
      can_manage to_int cfg a (opener_id on_ready_panel) = Inr (holds_staff to_int cfg a))"
  using can_manage_True [of to_int cfg a 0] can_manage_well [of to_int cfg a 0]
  by (simp add: on_ready_panel_def)

theorem restored_panel_staff_only_witness:
  "member_id alice \<noteq> 0 \<and> well_configured ascii_int cfg_staff \<and>
   can_manage ascii_int cfg_staff alice (opener_id on_ready_panel) = Inr False \<and>
   can_manage ascii_int cfg_staff alice 11 = Inr True"
proof -
  have n: "member_id alice \<noteq> 0"
    by (simp add: alice_def)
  have m: "member_id alice = 11"
    by (simp add: alice_def)
  from restored_panel_staff_only [OF n, of ascii_int cfg_staff] well_configured_cfg_staff
    holds_staff_alice
  have "can_manage ascii_int cfg_staff alice (opener_id on_ready_panel) = Inr False"
    by auto
  moreover have "can_manage ascii_int cfg_staff alice 11 = Inr True"
    using can_manage_True [of ascii_int cfg_staff alice 11] m by simp
  ultimately show ?thesis
    using n well_configured_cfg_staff by simp
qed

section \<open>The guild's channels\<close>

lemma find_map_same:
  "find (\<lambda>c. ch_id c = cid) cs = Some c \<Longrightarrow> ch_id (f c) = cid \<Longrightarrow>
   find (\<lambda>c. ch_id c = cid) (map (\<lambda>c. if ch_id c = cid then f c else c) cs) = Some (f c)"
  by (induction cs) (auto split: if_splits)

lemma find_map_other:
  "cid' \<noteq> cid \<Longrightarrow> \<forall>c. ch_id (f c) = ch_id c \<Longrightarrow>
   find (\<lambda>c. ch_id c = cid') (map (\<lambda>c. if ch_id c = cid then f c else c) cs)
     = find (\<lambda>c. ch_id c = cid') cs"
  by (induction cs) auto

lemma lookup_channel_id:
  "lookup_channel g cid = Some c \<Longrightarrow> ch_id c = cid"
  by (auto simp: lookup_channel_def find_Some_iff)

lemma lookup_update_channel:
  "lookup_channel g cid = Some c \<Longrightarrow> ch_id (f c) = cid \<Longrightarrow>
   lookup_channel (update_channel g cid f) cid = Some (f c)"
  by (simp add: lookup_channel_def update_channel_def find_map_same)

lemma lookup_update_channel_other:
  "cid' \<noteq> cid \<Longrightarrow> \<forall>c. ch_id (f c) = ch_id c \<Longrightarrow>
   lookup_channel (update_channel g cid f) cid' = lookup_channel g cid'"
  by (simp add: lookup_channel_def update_channel_def find_map_other)

lemma lookup_guild1: "lookup_channel guild1 100 = Some ticket_chan"
  by (simp add: lookup_channel_def guild1_def ticket_chan_def)

lemma user_pressed_by [simp]: "user (pressed_by m) = m"
  by (simp add: pressed_by_def)

lemma channel_pressed_by [simp]: "channel (pressed_by m) = TextChannel 100"
  by (simp add: pressed_by_def)

lemma in_guild_pressed_by [simp]: "in_guild (pressed_by m)"
  by (simp add: pressed_by_def)

section \<open>Close\<close>

lemma close_denied:
  "can_manage to_int cfg (user i) (opener_id self) = Inr False \<Longrightarrow>
   TicketPanel_close to_int cfg pf self i g =
     returns [Send_message ''You are not allowed to close this ticket.'' True] g"
  by (simp add: TicketPanel_close_def)

lemma close_raised:
  "can_manage to_int cfg (user i) (opener_id self) = Inl e \<Longrightarrow>
   TicketPanel_close to_int cfg pf self i g = raises e [] g"
  by (simp add: TicketPanel_close_def)

text \<open>
  Claim C7, as the code has it. When the actor is neither the opener the panel is bound
  to nor a holder of the staff role, close deletes nothing and the guild is as it was. The
  actor gets the ephemeral message of the refusal when the staff role text is absent,
  empty or a text that \<^verbatim>\<open>int\<close> accepts, and also when the actor holds no role; when the text
  is one that \<^verbatim>\<open>int\<close> rejects and the actor holds a role, the callback raises
  \<^verbatim>\<open>ValueError\<close> and has sent nothing.
\<close>

theorem close_unauthorised_no_change:
  assumes "member_id (user i) \<noteq> opener_id self"
    and "\<not> holds_staff to_int cfg (user i)"
  shows "state (TicketPanel_close to_int cfg pf self i g) = g \<and>
         (well_configured to_int cfg \<or> roles (user i) = [] \<longrightarrow>
            raised (TicketPanel_close to_int cfg pf self i g) = None \<and>
            effects (TicketPanel_close to_int cfg pf self i g) =
              [Send_message ''You are not allowed to close this ticket.'' True]) \<and>
         (\<not> well_configured to_int cfg \<and> roles (user i) \<noteq> [] \<longrightarrow>
            raised (TicketPanel_close to_int cfg pf self i g) = Some ValueError \<and>
            effects (TicketPanel_close to_int cfg pf self i g) = [])"
proof (cases "well_configured to_int cfg \<or> roles (user i) = []")
  case True
  then have "can_manage to_int cfg (user i) (opener_id self) = Inr False"
    using assms can_manage_returns [of to_int cfg "user i" "opener_id self"] by simp
  then have "TicketPanel_close to_int cfg pf self i g =
      returns [Send_message ''You are not allowed to close this ticket.'' True] g"
    by (rule close_denied)
  with True show ?thesis
    by (auto simp: returns_def)
next
  case False
  then have "can_manage to_int cfg (user i) (opener_id self) = Inl ValueError"
    using assms(1) can_manage_raises [of to_int cfg "user i" "opener_id self"] by simp
  then have "TicketPanel_close to_int cfg pf self i g = raises ValueError [] g"
    by (rule close_raised)
  with False show ?thesis
    by (auto simp: raises_def)
qed

theorem close_unauthorised_no_change_witness:
  "member_id (user (pressed_by bob)) \<noteq> opener_id alice_panel \<and>
   \<not> holds_staff ascii_int cfg_staff (user (pressed_by bob)) \<and>
   well_configured ascii_int cfg_staff \<and>
   effects (TicketPanel_close ascii_int cfg_staff pf_ok alice_panel (pressed_by bob) guild1) =
     [Send_message ''You are not allowed to close this ticket.'' True] \<and>
   lookup_channel
     (state (TicketPanel_close ascii_int cfg_staff pf_ok alice_panel (pressed_by bob) guild1))
     100 = Some ticket_chan \<and>
   \<not> holds_staff ascii_int cfg_abc (user (pressed_by bob)) \<and>
   \<not> well_configured ascii_int cfg_abc \<and> roles (user (pressed_by bob)) \<noteq> [] \<and>
   raised (TicketPanel_close ascii_int cfg_abc pf_ok alice_panel (pressed_by bob) guild1) =
     Some ValueError \<and>
   lookup_channel
     (state (TicketPanel_close ascii_int cfg_abc pf_ok alice_panel (pressed_by bob) guild1))
     100 = Some ticket_chan"
proof -
  have n: "member_id (user (pressed_by bob)) \<noteq> opener_id alice_panel"
    by (simp add: bob_def alice_panel_def)
  have h: "\<not> holds_staff ascii_int cfg_staff (user (pressed_by bob))"
    using holds_staff_bob by simp
  have k: "\<not> holds_staff ascii_int cfg_abc (user (pressed_by bob))"
    by (rule holds_staff_cfg_abc)
  have r: "roles (user (pressed_by bob)) \<noteq> []"
    using bob_facts(2) by simp
  from close_unauthorised_no_change [OF n h, of pf_ok guild1] well_configured_cfg_staff
  have 1: "effects (TicketPanel_close ascii_int cfg_staff pf_ok alice_panel (pressed_by bob)
              guild1) = [Send_message ''You are not allowed to close this ticket.'' True]"
    "state (TicketPanel_close ascii_int cfg_staff pf_ok alice_panel (pressed_by bob) guild1)
       = guild1"
    by blast+
  from close_unauthorised_no_change [OF n k, of pf_ok guild1] malformed_cfg_abc r
  have 2: "raised (TicketPanel_close ascii_int cfg_abc pf_ok alice_panel (pressed_by bob)
              guild1) = Some ValueError"
    "state (TicketPanel_close ascii_int cfg_abc pf_ok alice_panel (pressed_by bob) guild1)
       = guild1"
    by blast+
  show ?thesis
    using 1 2 n h k r well_configured_cfg_staff malformed_cfg_abc lookup_guild1 by simp
qed

text \<open>
  The claim as the specification words it fails for a staff role text that is no number:
  with \<^verbatim>\<open>STAFF_ROLE_ID=abc\<close>, \<open>bob\<close>, neither opener nor staff, presses close on the ticket of
  \<open>alice\<close>; the callback raises and no message has been sent to him.
\<close>

theorem close_malformed_no_message:
  "member_id (user (pressed_by bob)) \<noteq> opener_id alice_panel \<and>
   \<not> holds_staff ascii_int cfg_abc (user (pressed_by bob)) \<and>
   raised (TicketPanel_close ascii_int cfg_abc pf_ok alice_panel (pressed_by bob) guild1) =
     Some ValueError \<and>
   effects (TicketPanel_close ascii_int cfg_abc pf_ok alice_panel (pressed_by bob) guild1) = []"
proof -
  have n: "member_id (user (pressed_by bob)) \<noteq> opener_id alice_panel"
    by (simp add: bob_def alice_panel_def)
  have r: "roles (user (pressed_by bob)) \<noteq> []"
    using bob_facts(2) by simp
  have "can_manage ascii_int cfg_abc (user (pressed_by bob)) (opener_id alice_panel)
      = Inl ValueError"
    using malformed_cfg_abc r n by (rule can_manage_raises)
  then have "TicketPanel_close ascii_int cfg_abc pf_ok alice_panel (pressed_by bob) guild1
      = raises ValueError [] guild1"
    by (rule close_raised)
  then show ?thesis
    using n holds_staff_cfg_abc by (simp add: raises_def)
qed

section \<open>Claim\<close>

lemma claim_not_staff:
  "has_staff_role to_int cfg (user i) = Inr False \<Longrightarrow>
   TicketPanel_claim to_int cfg pf self i g =
     returns [Send_message ''Only staff can claim tickets.'' True] g"
  by (simp add: TicketPanel_claim_def)

lemma claim_staff_forbidden:
  "has_staff_role to_int cfg (user i) = Inr True \<Longrightarrow> channel i = TextChannel cid \<Longrightarrow>
   lookup_channel g cid = Some c \<Longrightarrow> \<not> allow_edit pf \<Longrightarrow>
   TicketPanel_claim to_int cfg pf self i g =
     returns [Send_message (''Ticket claimed by '' @ mention (user i) @ ''.'') False] g"
  by (simp add: TicketPanel_claim_def channel_edit_topic_def)

lemma claim_staff_edited:
  "has_staff_role to_int cfg (user i) = Inr True \<Longrightarrow> channel i = TextChannel cid \<Longrightarrow>
   lookup_channel g cid = Some c \<Longrightarrow> allow_edit pf \<Longrightarrow>
   TicketPanel_claim to_int cfg pf self i g =
     returns [Send_message (''Ticket claimed by '' @ mention (user i) @ ''.'') False]
       (update_channel g cid (\<lambda>c'. c'\<lparr>ch_topic := Some (take_chars 1024
          ((case ch_topic c of Some t \<Rightarrow> t | None \<Rightarrow> []) @ '' | '' @ ''Claimed by ''
           @ member_str (user i) @ '' at '' @ fmt_ts (clock pf)))\<rparr>))"
  by (simp add: TicketPanel_claim_def channel_edit_topic_def)

lemma mention_staffer: "mention staffer = ''<@7>''"
  by (simp add: mention_def staffer_def str_int_def str_nat.simps digit_char_def)

lemma lookup_guild2: "lookup_channel guild2 100 = Some staffer_chan"
  by (simp add: lookup_channel_def guild2_def staffer_chan_def)

text \<open>
  Claim C10. When a staff member claims and the platform refuses the topic edit, the
  callback returns without raising, its only message is the public announcement of the
  claim, and the guild, the topic included, is as it was.
\<close>

theorem claim_announced_without_annotation:
  assumes "holds_staff to_int cfg (user i)"
    and "channel i = TextChannel cid"
    and "lookup_channel g cid = Some c"
    and "\<not> allow_edit pf"
  shows "raised (TicketPanel_claim to_int cfg pf self i g) = None \<and>
         effects (TicketPanel_claim to_int cfg pf self i g) =
           [Send_message (''Ticket claimed by '' @ mention (user i) @ ''.'') False] \<and>
         state (TicketPanel_claim to_int cfg pf self i g) = g"
proof -
  have "has_staff_role to_int cfg (user i) = Inr True"
    using assms(1) by (simp add: has_staff_role_True)
  from claim_staff_forbidden [OF this assms(2-4)] show ?thesis
    by (simp add: returns_def)
qed

theorem claim_announced_without_annotation_witness:
  "holds_staff ascii_int cfg_staff (user (pressed_by staffer)) \<and>
   channel (pressed_by staffer) = TextChannel 100 \<and>
   lookup_channel guild1 100 = Some ticket_chan \<and>
   \<not> allow_edit pf_denied \<and>
   effects (TicketPanel_claim ascii_int cfg_staff pf_denied alice_panel (pressed_by staffer) guild1) =
     [Send_message ''Ticket claimed by <@7>.'' False] \<and>
   lookup_channel
     (state (TicketPanel_claim ascii_int cfg_staff pf_denied alice_panel (pressed_by staffer) guild1)) 100
     = Some ticket_chan \<and>
   ch_topic ticket_chan = None"
proof -
  have h: "holds_staff ascii_int cfg_staff (user (pressed_by staffer))"
    using holds_staff_staffer by simp
  have c: "channel (pressed_by staffer) = TextChannel 100"
    by simp
  have d: "\<not> allow_edit pf_denied"
    by (simp add: pf_denied_def)
  from claim_announced_without_annotation [OF h c lookup_guild1 d, of alice_panel]
  show ?thesis
    using h d lookup_guild1 mention_staffer by (simp add: ticket_chan_def)
qed

lemma claim_raised:
  "has_staff_role to_int cfg (user i) = Inl e \<Longrightarrow>
   TicketPanel_claim to_int cfg pf self i g = raises e [] g"
  by (simp add: TicketPanel_claim_def)

lemma claim_staff_announced:
  assumes "holds_staff to_int cfg (user i)" and "channel i = TextChannel cid"
    and "lookup_channel g cid = Some c"
  shows "raised (TicketPanel_claim to_int cfg pf self i g) = None \<and>
         effects (TicketPanel_claim to_int cfg pf self i g) =
           [Send_message (''Ticket claimed by '' @ mention (user i) @ ''.'') False]"
proof -
  have s: "has_staff_role to_int cfg (user i) = Inr True"
    using assms(1) by (simp add: has_staff_role_True)
  show ?thesis
    using claim_staff_forbidden [OF s assms(2,3), of pf self]
      claim_staff_edited [OF s assms(2,3), of pf self]
    by (cases "allow_edit pf") (simp_all add: returns_def)
qed

lemma claim_not_staff_cases:
  assumes "\<not> holds_staff to_int cfg (user i)"
  shows "state (TicketPanel_claim to_int cfg pf self i g) = g"
    and "well_configured to_int cfg \<or> roles (user i) = [] \<Longrightarrow>
         TicketPanel_claim to_int cfg pf self i g =
           returns [Send_message ''Only staff can claim tickets.'' True] g"
    and "\<not> well_configured to_int cfg \<Longrightarrow> roles (user i) \<noteq> [] \<Longrightarrow>
         TicketPanel_claim to_int cfg pf self i g = raises ValueError [] g"
proof -
  show r: "TicketPanel_claim to_int cfg pf self i g =
           returns [Send_message ''Only staff can claim tickets.'' True] g"
    if "well_configured to_int cfg \<or> roles (user i) = []"
  proof -
    have "has_staff_role to_int cfg (user i) = Inr False"
      using that assms has_staff_role_returns [of to_int cfg "user i"] by simp
    then show ?thesis
      by (rule claim_not_staff)
  qed
  show v: "TicketPanel_claim to_int cfg pf self i g = raises ValueError [] g"
    if "\<not> well_configured to_int cfg" and "roles (user i) \<noteq> []"
  proof -
    have "has_staff_role to_int cfg (user i) = Inl ValueError"
      using that by (rule has_staff_role_malformed)
    then show ?thesis
      by (rule claim_raised)
  qed
  show "state (TicketPanel_claim to_int cfg pf self i g) = g"
  proof (cases "well_configured to_int cfg \<or> roles (user i) = []")
    case True
    then show ?thesis
      using r by (simp add: returns_def)
  next
    case False
    then show ?thesis
      using v by (simp add: raises_def)
  qed
qed

text \<open>
  Claim C6, as the code has it. The claim button asks for the staff role and for nothing
  else. An actor who holds it claims the ticket, also when the panel is bound to the
  actor's own id: in a text channel the callback returns and the claim is announced. An
  actor who does not hold it, the opener included, is turned away and nothing changes:
  with the ephemeral message when the staff role text is absent, empty or a text that
  \<^verbatim>\<open>int\<close> accepts, and also when the actor holds no role; with \<^verbatim>\<open>ValueError\<close> and no message
  when the text is one that \<^verbatim>\<open>int\<close> rejects and the actor holds a role.
\<close>

theorem claim_staff_only:
  "(holds_staff to_int cfg (user i) \<and> channel i = TextChannel cid \<and>
    lookup_channel g cid = Some c \<longrightarrow>
      raised (TicketPanel_claim to_int cfg pf self i g) = None \<and>
      effects (TicketPanel_claim to_int cfg pf self i g) =
        [Send_message (''Ticket claimed by '' @ mention (user i) @ ''.'') False]) \<and>
   (\<not> holds_staff to_int cfg (user i) \<longrightarrow>
      state (TicketPanel_claim to_int cfg pf self i g) = g \<and>
      (well_configured to_int cfg \<or> roles (user i) = [] \<longrightarrow>
         TicketPanel_claim to_int cfg pf self i g =
           returns [Send_message ''Only staff can claim tickets.'' True] g) \<and>
      (\<not> well_configured to_int cfg \<and> roles (user i) \<noteq> [] \<longrightarrow>
         TicketPanel_claim to_int cfg pf self i g = raises ValueError [] g))"
  using claim_staff_announced [of to_int cfg i cid g c pf self]
    claim_not_staff_cases [of to_int cfg i pf self g]
  by blast

theorem claim_staff_only_witness:
  "\<not> holds_staff ascii_int cfg_staff (user (pressed_by alice)) \<and>
   well_configured ascii_int cfg_staff \<and>
   member_id (user (pressed_by alice)) = opener_id alice_panel \<and>
   TicketPanel_claim ascii_int cfg_staff pf_ok alice_panel (pressed_by alice) guild1 =
     returns [Send_message ''Only staff can claim tickets.'' True] guild1 \<and>
   holds_staff ascii_int cfg_staff (user (pressed_by staffer)) \<and>
   channel (pressed_by staffer) = TextChannel 100 \<and>
   lookup_channel guild2 100 = Some staffer_chan \<and>
   member_id (user (pressed_by staffer)) = opener_id staffer_panel \<and>
   effects (TicketPanel_claim ascii_int cfg_staff pf_ok staffer_panel (pressed_by staffer) guild2)
     = [Send_message ''Ticket claimed by <@7>.'' False] \<and>
   \<not> holds_staff ascii_int cfg_abc (user (pressed_by bob)) \<and>
   \<not> well_configured ascii_int cfg_abc \<and> roles (user (pressed_by bob)) \<noteq> [] \<and>
   TicketPanel_claim ascii_int cfg_abc pf_ok alice_panel (pressed_by bob) guild1 =
     raises ValueError [] guild1"
proof -
  have a: "\<not> holds_staff ascii_int cfg_staff (user (pressed_by alice))"
    using holds_staff_alice by simp
  have s: "holds_staff ascii_int cfg_staff (user (pressed_by staffer))"
    using holds_staff_staffer by simp
  have k: "\<not> holds_staff ascii_int cfg_abc (user (pressed_by bob))"
    by (rule holds_staff_cfg_abc)
  have r: "roles (user (pressed_by bob)) \<noteq> []"
    using bob_facts(2) by simp
  have o: "member_id (user (pressed_by staffer)) = opener_id staffer_panel"
    "member_id (user (pressed_by alice)) = opener_id alice_panel"
    by (simp_all add: staffer_def staffer_panel_def alice_def alice_panel_def)
  have c: "channel (pressed_by staffer) = TextChannel 100"
    by simp
  from claim_staff_only [of ascii_int cfg_staff "pressed_by alice" 100 guild1 ticket_chan
      pf_ok alice_panel] a well_configured_cfg_staff
  have 1: "TicketPanel_claim ascii_int cfg_staff pf_ok alice_panel (pressed_by alice) guild1 =
     returns [Send_message ''Only staff can claim tickets.'' True] guild1"
    by blast
  from claim_staff_only [of ascii_int cfg_staff "pressed_by staffer" 100 guild2 staffer_chan
      pf_ok staffer_panel] s c lookup_guild2
  have "effects (TicketPanel_claim ascii_int cfg_staff pf_ok staffer_panel (pressed_by staffer)
      guild2) = [Send_message (''Ticket claimed by '' @ mention (user (pressed_by staffer))
                   @ ''.'') False]"
    by blast
  then have 2: "effects (TicketPanel_claim ascii_int cfg_staff pf_ok staffer_panel
      (pressed_by staffer) guild2) = [Send_message ''Ticket claimed by <@7>.'' False]"
    using mention_staffer by simp
  from claim_staff_only [of ascii_int cfg_abc "pressed_by bob" 100 guild1 ticket_chan
      pf_ok alice_panel] k malformed_cfg_abc r
  have 3: "TicketPanel_claim ascii_int cfg_abc pf_ok alice_panel (pressed_by bob) guild1 =
     raises ValueError [] guild1"
    by blast
  show ?thesis
    using 1 2 3 a s k r o c well_configured_cfg_staff malformed_cfg_abc lookup_guild2
    by simp
qed

text \<open>
  The claim as the specification words it fails where the opener holds the staff role:
  \<open>staffer\<close> presses claim on the panel bound to \<open>staffer\<close>'s own id and is not turned
  away; the claim is announced.
\<close>

theorem opener_with_staff_role_claims:
  "member_id (user (pressed_by staffer)) = opener_id staffer_panel \<and>
   holds_staff ascii_int cfg_staff (user (pressed_by staffer)) \<and>
   TicketPanel_claim ascii_int cfg_staff pf_ok staffer_panel (pressed_by staffer) guild2 \<noteq>
     returns [Send_message ''Only staff can claim tickets.'' True] guild2 \<and>
   effects (TicketPanel_claim ascii_int cfg_staff pf_ok staffer_panel (pressed_by staffer) guild2) =
     [Send_message ''Ticket claimed by <@7>.'' False]"
proof -
  have s: "has_staff_role ascii_int cfg_staff (user (pressed_by staffer)) = Inr True"
    using holds_staff_staffer by (simp add: has_staff_role_True)
  have p: "allow_edit pf_ok"
    by (simp add: pf_ok_def)
  have c: "channel (pressed_by staffer) = TextChannel 100"
    by simp
  have e: "effects (TicketPanel_claim ascii_int cfg_staff pf_ok staffer_panel (pressed_by staffer) guild2)
      = [Send_message ''Ticket claimed by <@7>.'' False]"
    using claim_staff_edited [OF s c lookup_guild2 p, of staffer_panel] mention_staffer
    by (simp add: returns_def)
  have "effects (returns [Send_message ''Only staff can claim tickets.'' True] guild2)
      \<noteq> [Send_message ''Ticket claimed by <@7>.'' False]"
    by (simp add: returns_def)
  with e have "TicketPanel_claim ascii_int cfg_staff pf_ok staffer_panel (pressed_by staffer) guild2 \<noteq>
      returns [Send_message ''Only staff can claim tickets.'' True] guild2"
    by auto
  with e holds_staff_staffer show ?thesis
    by (simp add: staffer_def staffer_panel_def)
qed


section \<open>Adding and removing a participant\<close>

lemma add_user_ok:
  "can_manage to_int cfg (user i) oid = Inr True \<Longrightarrow> channel i = TextChannel cid \<Longrightarrow> in_guild i \<Longrightarrow>
   get_member g sel = Some m \<Longrightarrow> lookup_channel g cid = Some c \<Longrightarrow>
   allow_set_permissions pf \<Longrightarrow>
   AddUserView_select_user to_int cfg pf oid sel i g =
     returns [Send_message (''Added '' @ mention m @ '' to this ticket.'') True]
       (update_channel g cid (\<lambda>c. c\<lparr>ch_overwrites :=
          AList.update (MemberTarget (member_id m))
            (PermissionOverwrite\<lparr>view_channel := Some True,
               send_messages := Some True, read_message_history := Some True,
               attach_files := Some True\<rparr>) (ch_overwrites c)\<rparr>))"
  by (simp add: AddUserView_select_user_def set_permissions_def)

lemma remove_user_ok:
  "can_manage to_int cfg (user i) oid = Inr True \<Longrightarrow> channel i = TextChannel cid \<Longrightarrow> in_guild i \<Longrightarrow>
   get_member g sel = Some m \<Longrightarrow> lookup_channel g cid = Some c \<Longrightarrow>
   allow_set_permissions pf \<Longrightarrow>
   RemoveUserView_select_user to_int cfg pf oid sel i g =
     returns [Send_message (''Removed '' @ mention m @ '' from this ticket.'') True]
       (update_channel g cid (\<lambda>c. c\<lparr>ch_overwrites :=
          AList.delete (MemberTarget (member_id m)) (ch_overwrites c)\<rparr>))"
  by (simp add: RemoveUserView_select_user_def set_permissions_def)

lemma get_member_update_channel:
  "get_member (update_channel g cid f) sel = get_member g sel"
  by (simp add: get_member_def update_channel_def)

lemma add_then_remove:
  assumes a: "can_manage to_int cfg (user i) oid = Inr True"
    and ch: "channel i = TextChannel cid"
    and ig: "in_guild i"
    and m: "get_member g sel = Some m"
    and l: "lookup_channel g cid = Some c"
    and p: "allow_set_permissions pf"
  shows "lookup_channel
           (state (RemoveUserView_select_user to_int cfg pf oid sel i
              (state (AddUserView_select_user to_int cfg pf oid sel i g)))) cid
         = Some (c\<lparr>ch_overwrites :=
                    AList.delete (MemberTarget (member_id m)) (ch_overwrites c)\<rparr>)"
    and "cid' \<noteq> cid \<Longrightarrow> lookup_channel
           (state (RemoveUserView_select_user to_int cfg pf oid sel i
              (state (AddUserView_select_user to_int cfg pf oid sel i g)))) cid'
         = lookup_channel g cid'"
proof -
  let ?t = "MemberTarget (member_id m)"
  let ?w = "PermissionOverwrite\<lparr>view_channel := Some True,
              send_messages := Some True, read_message_history := Some True,
              attach_files := Some True\<rparr>"
  let ?f = "\<lambda>c. c\<lparr>ch_overwrites := AList.update ?t ?w (ch_overwrites c)\<rparr>"
  let ?h = "\<lambda>c. c\<lparr>ch_overwrites := AList.delete ?t (ch_overwrites c)\<rparr>"
  let ?g1 = "update_channel g cid ?f"
  have i: "ch_id c = cid"
    using l by (rule lookup_channel_id)
  have s1: "state (AddUserView_select_user to_int cfg pf oid sel i g) = ?g1"
    using add_user_ok [OF a ch ig m l p] by (simp add: returns_def)
  have l1: "lookup_channel ?g1 cid = Some (?f c)"
    using l i by (simp add: lookup_update_channel)
  have m1: "get_member ?g1 sel = Some m"
    using m by (simp add: get_member_update_channel)
  have s2: "state (RemoveUserView_select_user to_int cfg pf oid sel i ?g1) = update_channel ?g1 cid ?h"
    using remove_user_ok [OF a ch ig m1 l1 p] by (simp add: returns_def)
  have "lookup_channel (update_channel ?g1 cid ?h) cid = Some (?h (?f c))"
    using l1 i by (simp add: lookup_update_channel)
  then show "lookup_channel
           (state (RemoveUserView_select_user to_int cfg pf oid sel i
              (state (AddUserView_select_user to_int cfg pf oid sel i g)))) cid
         = Some (c\<lparr>ch_overwrites :=
                    AList.delete (MemberTarget (member_id m)) (ch_overwrites c)\<rparr>)"
    by (simp add: s1 s2 delete_update_same)
  show "lookup_channel
           (state (RemoveUserView_select_user to_int cfg pf oid sel i
              (state (AddUserView_select_user to_int cfg pf oid sel i g)))) cid'
         = lookup_channel g cid'" if "cid' \<noteq> cid"
    using that by (simp add: s1 s2 lookup_update_channel_other)
qed

lemma delete_absent:
  "map_of al k = None \<Longrightarrow> AList.delete k al = al"
  by (simp add: map_of_eq_None_iff)

lemma can_manage_staffer: "can_manage ascii_int cfg_staff (user (pressed_by staffer)) 11 = Inr True"
  using holds_staff_staffer by (simp add: can_manage_True)

lemma get_member_bob: "get_member guild1 12 = Some bob"
  by (simp add: get_member_def guild1_def guild0_def bot_def staffer_def alice_def bob_def)

lemma get_member_alice: "get_member guild1 11 = Some alice"
  by (simp add: get_member_def guild1_def guild0_def bot_def staffer_def alice_def)

lemma ticket_chan_overwrites:
  "ch_overwrites ticket_chan =
     [(RoleTarget 5, PermissionOverwrite\<lparr>view_channel := Some False\<rparr>),
      (MemberTarget 11, PermissionOverwrite\<lparr>view_channel := Some True,
         send_messages := Some True, read_message_history := Some True,
         attach_files := Some True\<rparr>),
      (MemberTarget 1, PermissionOverwrite\<lparr>view_channel := Some True,
         send_messages := Some True, manage_channels := Some True,
         read_message_history := Some True, attach_files := Some True\<rparr>),
      (RoleTarget 42, PermissionOverwrite\<lparr>view_channel := Some True,
         send_messages := Some True, read_message_history := Some True,
         manage_messages := Some True, attach_files := Some True\<rparr>)]"
  by (simp add: ticket_chan_def build_ticket_overwrites_def guild0_def bot_def alice_def)

text \<open>
  Claim C5, as the code has it. When add-user for a guild member \<open>m\<close> is followed by
  remove-user for \<open>m\<close>, the channel has no overwrite for \<open>m\<close> and every other overwrite,
  the rest of the channel and all other channels are as before the add. The channel is
  back in its state before the add when \<open>m\<close> had no overwrite on it then.
\<close>

theorem add_then_remove_clears_overwrite:
  assumes "member_id (user i) = oid \<or> holds_staff to_int cfg (user i)"
    and "channel i = TextChannel cid"
    and "in_guild i"
    and "get_member g sel = Some m"
    and "lookup_channel g cid = Some c"
    and "allow_set_permissions pf"
  shows "(let g' = state (RemoveUserView_select_user to_int cfg pf oid sel i
                      (state (AddUserView_select_user to_int cfg pf oid sel i g)))
          in lookup_channel g' cid =
               Some (c\<lparr>ch_overwrites :=
                         AList.delete (MemberTarget (member_id m)) (ch_overwrites c)\<rparr>) \<and>
             map_of (AList.delete (MemberTarget (member_id m)) (ch_overwrites c))
               (MemberTarget (member_id m)) = None \<and>
             (map_of (ch_overwrites c) (MemberTarget (member_id m)) = None \<longrightarrow>
                lookup_channel g' cid = Some c) \<and>
             (\<forall>cid'. cid' \<noteq> cid \<longrightarrow> lookup_channel g' cid' = lookup_channel g cid'))"
proof -
  have a: "can_manage to_int cfg (user i) oid = Inr True"
    using assms(1) by (simp add: can_manage_True)
  note r = add_then_remove [OF a assms(2-6)]
  have "map_of (AList.delete (MemberTarget (member_id m)) (ch_overwrites c))
          (MemberTarget (member_id m)) = None"
    by (simp add: delete_conv')
  moreover have "c\<lparr>ch_overwrites :=
                     AList.delete (MemberTarget (member_id m)) (ch_overwrites c)\<rparr> = c"
    if "map_of (ch_overwrites c) (MemberTarget (member_id m)) = None"
    using that by (simp add: delete_absent)
  ultimately show ?thesis
    using r by (simp add: Let_def)
qed

theorem add_then_remove_clears_overwrite_witness:
  "(member_id (user (pressed_by staffer)) = 11 \<or> holds_staff ascii_int cfg_staff (user (pressed_by staffer)))
   \<and> channel (pressed_by staffer) = TextChannel 100 \<and> in_guild (pressed_by staffer)
   \<and> get_member guild1 12 = Some bob \<and> lookup_channel guild1 100 = Some ticket_chan
   \<and> allow_set_permissions pf_ok
   \<and> map_of (ch_overwrites ticket_chan) (MemberTarget (member_id bob)) = None
   \<and> lookup_channel
        (state (RemoveUserView_select_user ascii_int cfg_staff pf_ok 11 12 (pressed_by staffer)
           (state (AddUserView_select_user ascii_int cfg_staff pf_ok 11 12 (pressed_by staffer) guild1))))
        100 = Some ticket_chan"
proof -
  have a: "member_id (user (pressed_by staffer)) = 11 \<or>
           holds_staff ascii_int cfg_staff (user (pressed_by staffer))"
    using holds_staff_staffer by simp
  have c: "channel (pressed_by staffer) = TextChannel 100"
    by simp
  have p: "allow_set_permissions pf_ok"
    by (simp add: pf_ok_def)
  have n: "map_of (ch_overwrites ticket_chan) (MemberTarget (member_id bob)) = None"
    by (simp add: ticket_chan_overwrites bob_def)
  from add_then_remove_clears_overwrite
    [OF a c in_guild_pressed_by get_member_bob lookup_guild1 p] n
  have "lookup_channel
        (state (RemoveUserView_select_user ascii_int cfg_staff pf_ok 11 12 (pressed_by staffer)
           (state (AddUserView_select_user ascii_int cfg_staff pf_ok 11 12 (pressed_by staffer) guild1))))
        100 = Some ticket_chan"
    unfolding Let_def by blast
  then show ?thesis
    using a p n get_member_bob lookup_guild1 by simp
qed

text \<open>
  The claim as the specification words it fails for a member who has an overwrite before
  the add. The opener \<open>alice\<close> has one on her ticket channel; after a staff member adds
  and then removes her, it is gone, and the channel is not what it was.
\<close>

theorem add_then_remove_opener_not_restored:
  "lookup_channel guild1 100 = Some ticket_chan \<and>
   map_of (ch_overwrites ticket_chan) (MemberTarget (member_id alice)) =
     Some (PermissionOverwrite\<lparr>view_channel := Some True, send_messages := Some True,
             read_message_history := Some True, attach_files := Some True\<rparr>) \<and>
   lookup_channel
     (state (RemoveUserView_select_user ascii_int cfg_staff pf_ok 11 11 (pressed_by staffer)
        (state (AddUserView_select_user ascii_int cfg_staff pf_ok 11 11 (pressed_by staffer) guild1))))
     100 \<noteq> Some ticket_chan \<and>
   state (RemoveUserView_select_user ascii_int cfg_staff pf_ok 11 11 (pressed_by staffer)
        (state (AddUserView_select_user ascii_int cfg_staff pf_ok 11 11 (pressed_by staffer) guild1)))
     \<noteq> guild1"
proof -
  let ?g' = "state (RemoveUserView_select_user ascii_int cfg_staff pf_ok 11 11 (pressed_by staffer)
        (state (AddUserView_select_user ascii_int cfg_staff pf_ok 11 11 (pressed_by staffer) guild1)))"
  have p: "allow_set_permissions pf_ok"
    by (simp add: pf_ok_def)
  have b: "map_of (ch_overwrites ticket_chan) (MemberTarget (member_id alice)) =
     Some (PermissionOverwrite\<lparr>view_channel := Some True, send_messages := Some True,
             read_message_history := Some True, attach_files := Some True\<rparr>)"
    by (simp add: ticket_chan_overwrites alice_def)
  have l: "lookup_channel ?g' 100 =
      Some (ticket_chan\<lparr>ch_overwrites :=
              AList.delete (MemberTarget (member_id alice)) (ch_overwrites ticket_chan)\<rparr>)"
    by (rule add_then_remove(1) [OF can_manage_staffer channel_pressed_by in_guild_pressed_by
          get_member_alice lookup_guild1 p])
  have d: "map_of (ch_overwrites (ticket_chan\<lparr>ch_overwrites :=
              AList.delete (MemberTarget (member_id alice)) (ch_overwrites ticket_chan)\<rparr>))
            (MemberTarget (member_id alice)) = None"
    by (simp add: delete_conv')
  have ne: "lookup_channel ?g' 100 \<noteq> Some ticket_chan"
  proof
    assume "lookup_channel ?g' 100 = Some ticket_chan"
    with l have "ticket_chan\<lparr>ch_overwrites :=
              AList.delete (MemberTarget (member_id alice)) (ch_overwrites ticket_chan)\<rparr>
              = ticket_chan"
      by simp
    with d have "map_of (ch_overwrites ticket_chan) (MemberTarget (member_id alice)) = None"
      by simp
    with b show False
      by simp
  qed
  then have "?g' \<noteq> guild1"
    using lookup_guild1 by auto
  with ne b lookup_guild1 show ?thesis
    by simp
qed


section \<open>The configurator\<close>

lemma replace_from_single:
  "replace_from 0 [a] new s = concat (map (\<lambda>c. if c = a then new else [c]) s)"
  by (induction s) auto

lemma replace_char:
  "replace [a] [b] s = map (\<lambda>c. if c = a then b else c) s"
  by (induction s) (auto simp: replace_def replace_from_single)

lemma staff_role_lookup:
  "well_configured to_int cfg \<Longrightarrow>
   (if truthy (STAFF_ROLE_ID cfg)
    then (case to_int (the (STAFF_ROLE_ID cfg)) of
            None \<Rightarrow> Inl ValueError
          | Some r \<Rightarrow> Inr (get_role g r))
    else Inr None) =
   Inr (case staff_role_of to_int cfg of None \<Rightarrow> None | Some r \<Rightarrow> get_role g r)"
  by (auto simp: well_configured_def truthy_def staff_role_of_def split: option.splits)


lemma on_confirm_created:
  assumes "truthy (reason self)" "truthy (priority self)" "in_guild i" "well_configured to_int cfg"
    and "get_or_create_category pf (TICKET_CATEGORY_NAME cfg) g = Inr g1"
    and "allow_create_channel pf"
  shows "on_confirm lower to_int cfg pf self i g =
     returns [Edit_message (''Your ticket has been created: ''
                @ channel_mention (next_channel_id pf)) False]
       (channel_send (next_channel_id pf)
          (ticket_message pf
             (g1\<lparr>text_channels := text_channels g1 @
                  [\<lparr>ch_id = next_channel_id pf, ch_name = channel_name lower (opener self),
                    ch_category = TICKET_CATEGORY_NAME cfg, ch_topic = None,
                    ch_overwrites = build_ticket_overwrites g1 (opener self)
                      (case staff_role_of to_int cfg of None \<Rightarrow> None | Some r \<Rightarrow> get_role g r),
                    ch_history = []\<rparr>]\<rparr>)
             self (case staff_role_of to_int cfg of None \<Rightarrow> None | Some r \<Rightarrow> get_role g r))
          (g1\<lparr>text_channels := text_channels g1 @
                  [\<lparr>ch_id = next_channel_id pf, ch_name = channel_name lower (opener self),
                    ch_category = TICKET_CATEGORY_NAME cfg, ch_topic = None,
                    ch_overwrites = build_ticket_overwrites g1 (opener self)
                      (case staff_role_of to_int cfg of None \<Rightarrow> None | Some r \<Rightarrow> get_role g r),
                    ch_history = []\<rparr>]\<rparr>))"
  using assms
  by (simp add: on_confirm_def staff_role_lookup create_text_channel_def)

lemma on_confirm_forbidden:
  assumes "truthy (reason self)" "truthy (priority self)" "in_guild i" "well_configured to_int cfg"
    and "TICKET_CATEGORY_NAME cfg \<in> set (categories g)"
    and "\<not> allow_create_channel pf"
  shows "on_confirm lower to_int cfg pf self i g = raises Forbidden [] g"
  using assms
  by (simp add: on_confirm_def staff_role_lookup create_text_channel_def get_or_create_category_def)







lemma category_available:
  "nm \<in> set (categories g) \<or> allow_create_category pf \<Longrightarrow>
   \<exists>g1. get_or_create_category pf nm g = Inr g1"
  by (auto simp: get_or_create_category_def)


lemma channel_send_last_name:
  "ch_name (last (text_channels (channel_send nid msg (g\<lparr>text_channels := cs @ [c]\<rparr>))))
     = ch_name c"
  by (simp add: channel_send_def update_channel_def)

lemma channel_send_nonempty:
  "text_channels (channel_send nid msg (g\<lparr>text_channels := cs @ [c]\<rparr>)) \<noteq> []"
  by (simp add: channel_send_def update_channel_def)

lemma channel_name_unfold:
  "channel_name lower m =
     ''ticket-'' @ map (\<lambda>c. if c = CHR '' '' then CHR ''-'' else c) (lower (name m)) @ ''-''
     @ (if discriminator m = ''0'' then str_int (member_id m) else discriminator m)"
  by (simp add: channel_name_def safe_name_def replace_char)

lemma menu_done_fields:
  "reason menu_done = Some ''Technical Issue''" "priority menu_done = Some ''High''"
  "opener menu_done = alice" "\<not> confirm_disabled menu_done"
  by (simp_all add: menu_done_def run_menu_def on_reason_def on_priority_def refresh_def
        TicketOpenView_def truthy_def Let_def)


lemma category_guild0: "TICKET_CATEGORY_NAME cfg_plain \<in> set (categories guild0)"
  "TICKET_CATEGORY_NAME cfg_staff \<in> set (categories guild0)"
  by (simp_all add: cfg_plain_def cfg_staff_def guild0_def)




text \<open>
  Claim C3, evaluated at the failing input. Both fields are set and the category exists;
  the platform refuses the channel creation. \<^verbatim>\<open>on_confirm\<close> has no handler for
  \<^verbatim>\<open>discord.Forbidden\<close>: the exception leaves the callback and no message has been sent.
  The menu keeps its fields, since \<^verbatim>\<open>on_confirm\<close> assigns to none of them.
\<close>

theorem confirm_forbidden_not_reported:
  "reason menu_done = Some ''Technical Issue'' \<and> priority menu_done = Some ''High'' \<and>
   \<not> allow_create_channel pf_denied \<and>
   raised (on_confirm ascii_lower ascii_int cfg_staff pf_denied menu_done (pressed_by alice) guild0)
     = Some Forbidden \<and>
   effects (on_confirm ascii_lower ascii_int cfg_staff pf_denied menu_done (pressed_by alice) guild0) = [] \<and>
   state (on_confirm ascii_lower ascii_int cfg_staff pf_denied menu_done (pressed_by alice) guild0) = guild0"
proof -
  have t: "truthy (reason menu_done)" "truthy (priority menu_done)"
    by (simp_all add: menu_done_fields truthy_def)
  have d: "\<not> allow_create_channel pf_denied"
    by (simp add: pf_denied_def)
  from on_confirm_forbidden [OF t in_guild_pressed_by well_configured_cfg_staff
      category_guild0(2) d, of ascii_lower alice]
  show ?thesis
    using d menu_done_fields by (simp add: raises_def)
qed

text \<open>
  The sibling callbacks do report the refusal: close, refused the deletion, sends the
  actor a followup.
\<close>

lemma close_forbidden_reported:
  "effects (TicketPanel_close ascii_int cfg_staff pf_denied alice_panel (pressed_by alice) guild1) =
     [Send_message (''Closing in 5 seconds'' @ ellipsis) True, Sleep 5,
      Followup ''I lack permission to delete this channel.'' True] \<and>
   raised (TicketPanel_close ascii_int cfg_staff pf_denied alice_panel (pressed_by alice) guild1) = None"
proof -
  have "can_manage ascii_int cfg_staff (user (pressed_by alice)) (opener_id alice_panel) = Inr True"
    by (simp add: can_manage_True alice_def alice_panel_def)
  then show ?thesis
    using lookup_guild1
    by (simp add: TicketPanel_close_def channel_delete_def pf_denied_def returns_def)
qed

lemma on_confirm_channel_name:
  assumes "truthy (reason self)" and "truthy (priority self)"
    and "in_guild i" and "well_configured to_int cfg"
    and "TICKET_CATEGORY_NAME cfg \<in> set (categories g) \<or> allow_create_category pf"
    and "allow_create_channel pf"
  shows "text_channels (state (on_confirm lower to_int cfg pf self i g)) \<noteq> [] \<and>
         ch_name (last (text_channels (state (on_confirm lower to_int cfg pf self i g)))) =
           ''ticket-''
           @ map (\<lambda>c. if c = CHR '' '' then CHR ''-'' else c) (lower (name (opener self)))
           @ ''-''
           @ (if discriminator (opener self) = ''0'' then str_int (member_id (opener self))
              else discriminator (opener self))"
proof -
  from assms(5) obtain g1 where
    g1: "get_or_create_category pf (TICKET_CATEGORY_NAME cfg) g = Inr g1"
    using category_available [of "TICKET_CATEGORY_NAME cfg" g pf] by blast
  note e = on_confirm_created [OF assms(1-4) g1 assms(6), of lower]
  show ?thesis
    unfolding e
    by (simp add: returns_def channel_send_last_name channel_send_nonempty channel_name_unfold)
qed

text \<open>
  Claim C9, as the code has it. The channel that confirm creates is named \<^verbatim>\<open>ticket-\<close>,
  then the opener's account name \<^verbatim>\<open>opener.name\<close> (not the display name) lowercased with
  every space replaced by a hyphen, then a hyphen and the suffix: the opener's
  discriminator, or the opener's account id in decimal when the discriminator is \<^verbatim>\<open>'0'\<close>.
\<close>

theorem confirm_channel_name:
  assumes "truthy (reason self)" and "truthy (priority self)"
    and "in_guild i" and "well_configured to_int cfg"
    and "TICKET_CATEGORY_NAME cfg \<in> set (categories g) \<or> allow_create_category pf"
    and "allow_create_channel pf"
  shows "text_channels (state (on_confirm lower to_int cfg pf self i g)) \<noteq> [] \<and>
         ch_name (last (text_channels (state (on_confirm lower to_int cfg pf self i g)))) =
           ''ticket-''
           @ map (\<lambda>c. if c = CHR '' '' then CHR ''-'' else c) (lower (name (opener self)))
           @ ''-''
           @ (if discriminator (opener self) = ''0'' then str_int (member_id (opener self))
              else discriminator (opener self))"
  using assms by (rule on_confirm_channel_name)

text \<open>
  The claim as the specification words it fails for an opener whose display name is not
  the account name: \<open>alice\<close> is shown as \<^verbatim>\<open>Ally\<close> and her account is \<^verbatim>\<open>Alice B\<close>; her ticket
  channel is \<^verbatim>\<open>ticket-alice-b-11\<close>, not the \<^verbatim>\<open>ticket-ally-11\<close> that the display name gives.
\<close>

theorem channel_name_not_from_display_name:
  "opener menu_done = alice \<and> name alice = ''Alice B'' \<and> display_name alice = ''Ally'' \<and>
   ''ticket-''
     @ map (\<lambda>c. if c = CHR '' '' then CHR ''-'' else c) (ascii_lower (display_name alice))
     @ ''-'' @ str_int (member_id alice) = ''ticket-ally-11'' \<and>
   ch_name (last (text_channels
     (state (on_confirm ascii_lower ascii_int cfg_staff pf_ok menu_done (pressed_by alice)
        guild0)))) = ''ticket-alice-b-11'' \<and>
   ch_name (last (text_channels
     (state (on_confirm ascii_lower ascii_int cfg_staff pf_ok menu_done (pressed_by alice)
        guild0)))) \<noteq>
     ''ticket-''
     @ map (\<lambda>c. if c = CHR '' '' then CHR ''-'' else c) (ascii_lower (display_name alice))
     @ ''-'' @ str_int (member_id alice)"
proof -
  have t: "truthy (reason menu_done)" "truthy (priority menu_done)"
    by (simp_all add: menu_done_fields truthy_def)
  have c: "TICKET_CATEGORY_NAME cfg_staff \<in> set (categories guild0) \<or>
           allow_create_category pf_ok"
    using category_guild0(2) by simp
  have p: "allow_create_channel pf_ok"
    by (simp add: pf_ok_def)
  have l: "ascii_lower ''Alice B'' = ''alice b''" "ascii_lower ''Ally'' = ''ally''"
    by code_simp+
  have s: "str_int 11 = ''11''"
    by (simp add: str_int_def str_nat.simps digit_char_def)
  have f: "name alice = ''Alice B''" "display_name alice = ''Ally''" "member_id alice = 11"
    "discriminator alice = ''0''"
    by (simp_all add: alice_def)
  have d: "''ticket-''
     @ map (\<lambda>c. if c = CHR '' '' then CHR ''-'' else c) (ascii_lower (display_name alice))
     @ ''-'' @ str_int (member_id alice) = ''ticket-ally-11''"
    using l s f by simp
  from on_confirm_channel_name [OF t in_guild_pressed_by well_configured_cfg_staff c p,
      of ascii_lower]
  have a: "ch_name (last (text_channels
     (state (on_confirm ascii_lower ascii_int cfg_staff pf_ok menu_done (pressed_by alice)
        guild0)))) = ''ticket-alice-b-11''"
    using l s f by (simp add: menu_done_fields)
  show ?thesis
    unfolding d a using f by (simp add: menu_done_fields)
qed

theorem confirm_channel_name_witness:
  "truthy (reason menu_done) \<and> truthy (priority menu_done) \<and> in_guild (pressed_by alice) \<and>
   well_configured ascii_int cfg_staff \<and> TICKET_CATEGORY_NAME cfg_staff \<in> set (categories guild0) \<and>
   allow_create_channel pf_ok \<and> name (opener menu_done) = ''Alice B'' \<and>
   discriminator (opener menu_done) = ''0'' \<and> member_id (opener menu_done) = 11 \<and>
   ch_name (last (text_channels
     (state (on_confirm ascii_lower ascii_int cfg_staff pf_ok menu_done (pressed_by alice) guild0))))
     = ''ticket-alice-b-11'' \<and>
   name bob = ''Bob'' \<and> discriminator bob = ''1234'' \<and>
   ch_name (last (text_channels
     (state (on_confirm ascii_lower ascii_int cfg_staff pf_ok (menu_done\<lparr>opener := bob\<rparr>)
        (pressed_by bob) guild0))))
     = ''ticket-bob-1234''"
proof -
  have t: "truthy (reason menu_done)" "truthy (priority menu_done)"
    by (simp_all add: menu_done_fields truthy_def)
  have u: "truthy (reason (menu_done\<lparr>opener := bob\<rparr>))"
    "truthy (priority (menu_done\<lparr>opener := bob\<rparr>))"
    using t by simp_all
  have c: "TICKET_CATEGORY_NAME cfg_staff \<in> set (categories guild0) \<or>
           allow_create_category pf_ok"
    using category_guild0(2) by simp
  have p: "allow_create_channel pf_ok"
    by (simp add: pf_ok_def)
  have l: "ascii_lower ''Alice B'' = ''alice b''" "ascii_lower ''Bob'' = ''bob''"
    by code_simp+
  have s: "str_int 11 = ''11''"
    by (simp add: str_int_def str_nat.simps digit_char_def)
  from confirm_channel_name [OF t in_guild_pressed_by well_configured_cfg_staff c p,
      of ascii_lower]
  have a: "ch_name (last (text_channels
     (state (on_confirm ascii_lower ascii_int cfg_staff pf_ok menu_done (pressed_by alice) guild0))))
     = ''ticket-alice-b-11''"
    using l s by (simp add: menu_done_fields alice_def)
  from confirm_channel_name [OF u in_guild_pressed_by well_configured_cfg_staff c p,
      of ascii_lower]
  have b: "ch_name (last (text_channels
     (state (on_confirm ascii_lower ascii_int cfg_staff pf_ok (menu_done\<lparr>opener := bob\<rparr>)
        (pressed_by bob) guild0))))
     = ''ticket-bob-1234''"
    using l by (simp add: bob_def)
  show ?thesis
    using a b t p well_configured_cfg_staff category_guild0(2)
    by (simp add: menu_done_fields alice_def bob_def)
qed

section \<open>Transcript\<close>

lemma digit_char_digit: "digit_char d \<in> set ''0123456789''"
proof -
  have "d mod 10 < length ''0123456789''"
    by simp
  then have "''0123456789'' ! (d mod 10) \<in> set ''0123456789''"
    by (rule nth_mem)
  then show ?thesis
    by (simp only: digit_char_def)
qed

lemma str_nat_digits: "set (str_nat n) \<subseteq> set ''0123456789''"
proof (induction n rule: str_nat.induct)
  case (1 n)
  show ?case
  proof (cases "n < 10")
    case True
    then show ?thesis
      using digit_char_digit [of n] by (subst str_nat.simps) simp
  next
    case False
    with 1 have "set (str_nat (n div 10)) \<subseteq> set ''0123456789''"
      by simp
    with False show ?thesis
      using digit_char_digit [of "n mod 10"] by (subst str_nat.simps) simp
  qed
qed

lemma str_nat_no_newline: "CHR 0x0A \<notin> set (str_nat n)"
  using str_nat_digits [of n] by auto

lemma str_int_no_newline: "CHR 0x0A \<notin> set (str_int i)"
  by (simp add: str_int_def str_nat_no_newline)

lemma zpad_no_newline: "CHR 0x0A \<notin> set (zpad w n)"
  by (simp add: zpad_def str_nat_no_newline)

lemma fmt_ts_no_newline: "CHR 0x0A \<notin> set (fmt_ts dt)"
  by (simp add: fmt_ts_def zpad_no_newline)

lemma escape_no_newline: "CHR 0x0A \<notin> set (replace [CHR 0x0A] [CHR 0x5C, CHR ''n''] s)"
  by (simp add: replace_def replace_from_single)

lemma join_no_newline:
  "CHR 0x0A \<notin> set sep \<Longrightarrow> \<forall>u\<in>set us. CHR 0x0A \<notin> set u \<Longrightarrow> CHR 0x0A \<notin> set (join sep us)"
  by (induction sep us rule: join.induct) auto

lemma transcript_line_no_newline:
  "one_line_fields msg \<Longrightarrow> CHR 0x0A \<notin> set (transcript_line msg)"
  using join_no_newline [of "'', ''" "attachments msg"]
  by (simp add: transcript_line_def one_line_fields_def Let_def fmt_ts_no_newline
        str_int_no_newline escape_no_newline)

lemma split_on_none: "sep \<notin> set l \<Longrightarrow> split_on sep l = [l]"
  by (induction l) auto

lemma split_on_append: "sep \<notin> set l \<Longrightarrow> split_on sep (l @ sep # r) = l # split_on sep r"
  by (induction l) auto

lemma split_on_join:
  "ls \<noteq> [] \<Longrightarrow> \<forall>l\<in>set ls. sep \<notin> set l \<Longrightarrow> split_on sep (join [sep] ls) = ls"
  by (induction "[sep]" ls rule: join.induct) (auto simp: split_on_none split_on_append)

lemma transcript_line_format:
  "transcript_line msg =
     ''['' @ fmt_ts (created_at msg) @ ''] '' @ author_text msg
     @ '' ('' @ str_int (author_id msg) @ ''): ''
     @ concat (map (\<lambda>c. if c = CHR 0x0A then [CHR 0x5C, CHR ''n''] else [c]) (content msg))
     @ (if attachments msg = [] then []
        else '' | Attachments: '' @ join '', '' (attachments msg))"
  by (simp add: transcript_line_def Let_def replace_def replace_from_single)

lemma transcript_lines:
  "history \<noteq> [] \<Longrightarrow> \<forall>m\<in>set history. one_line_fields m \<Longrightarrow>
   split_on (CHR 0x0A) (transcript_text history) = map transcript_line history"
  by (simp add: transcript_text_def Let_def split_on_join transcript_line_no_newline)

lemma transcript_delivered:
  "can_manage to_int cfg (user i) (opener_id self) = Inr True \<Longrightarrow> channel i = TextChannel cid \<Longrightarrow>
   lookup_channel g cid = Some c \<Longrightarrow>
   TicketPanel_transcript to_int cfg self i g =
     returns [Defer, Followup_file ''Here is the transcript.''
                (''transcript-'' @ ch_name c @ ''.txt'') (transcript_text (ch_history c))] g"
  by (simp add: TicketPanel_transcript_def)

lemma msg1_line:
  "transcript_line msg1 = ''[2024-03-09 12:05:00 UTC] Alice B (11): hi'' @ [CHR 0x5C] @ ''nthere''"
  by code_simp

lemma msg2_line:
  "transcript_line msg2 =
     ''[2024-03-09 12:06:30 UTC] Sam (7): ok | Attachments: https://x/a.png, https://x/b.png''"
  by code_simp


text \<open>
  Claim C4. The transcript of an empty history is the text \<^verbatim>\<open>No messages.\<close>; of any other
  history it is one line per message, in the order of the history, which is the order the
  platform yields for \<^verbatim>\<open>oldest_first=True\<close>: splitting the artifact at the line breaks
  gives back the formatted messages, the k-th line for the k-th message. A line is
  \<^verbatim>\<open>[timestamp] author (id): content\<close>, every line break of the content written as a
  backslash and \<^verbatim>\<open>n\<close>, followed by \<^verbatim>\<open> | Attachments: \<close> and the URLs separated by commas when
  there are attachments. The transcript button delivers this text for the channel's
  history.
\<close>

theorem transcript_order_and_format:
  "transcript_text [] = ''No messages.'' \<and>
   (history \<noteq> [] \<and> (\<forall>m\<in>set history. one_line_fields m) \<longrightarrow>
      split_on (CHR 0x0A) (transcript_text history) = map transcript_line history) \<and>
   transcript_line msg =
     ''['' @ fmt_ts (created_at msg) @ ''] '' @ author_text msg
     @ '' ('' @ str_int (author_id msg) @ ''): ''
     @ concat (map (\<lambda>c. if c = CHR 0x0A then [CHR 0x5C, CHR ''n''] else [c]) (content msg))
     @ (if attachments msg = [] then []
        else '' | Attachments: '' @ join '', '' (attachments msg)) \<and>
   (can_manage to_int cfg (user i) (opener_id self) = Inr True \<and> channel i = TextChannel cid \<and>
    lookup_channel g cid = Some c \<longrightarrow>
      effects (TicketPanel_transcript to_int cfg self i g) =
        [Defer, Followup_file ''Here is the transcript.''
                  (''transcript-'' @ ch_name c @ ''.txt'') (transcript_text (ch_history c))])"
proof (intro conjI impI)
  show "transcript_text [] = ''No messages.''"
    by (simp add: transcript_text_def)
next
  assume "history \<noteq> [] \<and> (\<forall>m\<in>set history. one_line_fields m)"
  then show "split_on (CHR 0x0A) (transcript_text history) = map transcript_line history"
    by (simp add: transcript_lines)
next
  show "transcript_line msg =
     ''['' @ fmt_ts (created_at msg) @ ''] '' @ author_text msg
     @ '' ('' @ str_int (author_id msg) @ ''): ''
     @ concat (map (\<lambda>c. if c = CHR 0x0A then [CHR 0x5C, CHR ''n''] else [c]) (content msg))
     @ (if attachments msg = [] then []
        else '' | Attachments: '' @ join '', '' (attachments msg))"
    by (rule transcript_line_format)
next
  assume "can_manage to_int cfg (user i) (opener_id self) = Inr True \<and> channel i = TextChannel cid \<and>
    lookup_channel g cid = Some c"
  then show "effects (TicketPanel_transcript to_int cfg self i g) =
        [Defer, Followup_file ''Here is the transcript.''
                  (''transcript-'' @ ch_name c @ ''.txt'') (transcript_text (ch_history c))]"
    by (simp add: transcript_delivered returns_def)
qed

theorem transcript_order_and_format_witness:
  "[msg1, msg2] \<noteq> [] \<and> one_line_fields msg1 \<and> one_line_fields msg2 \<and>
   split_on (CHR 0x0A) (transcript_text [msg1, msg2]) =
     [''[2024-03-09 12:05:00 UTC] Alice B (11): hi'' @ [CHR 0x5C] @ ''nthere'',
      ''[2024-03-09 12:06:30 UTC] Sam (7): ok | Attachments: https://x/a.png, https://x/b.png''] \<and>
   can_manage ascii_int cfg_staff (user (pressed_by alice)) (opener_id alice_panel) = Inr True \<and>
   channel (pressed_by alice) = TextChannel 100 \<and> lookup_channel guild3 100 = Some chat_chan \<and>
   effects (TicketPanel_transcript ascii_int cfg_staff alice_panel (pressed_by alice) guild3) =
     [Defer, Followup_file ''Here is the transcript.'' ''transcript-ticket-alice-b-11.txt''
        (transcript_text [msg1, msg2])]"
proof -
  have o: "\<forall>m\<in>set [msg1, msg2]. one_line_fields m"
    by (simp add: one_line_fields_def msg1_def msg2_def)
  have a: "can_manage ascii_int cfg_staff (user (pressed_by alice)) (opener_id alice_panel) = Inr True"
    by (simp add: can_manage_True alice_def alice_panel_def)
  have l: "lookup_channel guild3 100 = Some chat_chan"
    by (simp add: lookup_channel_def guild3_def chat_chan_def ticket_chan_def)
  have n: "ch_name chat_chan = ''ticket-alice-b-11''" "ch_history chat_chan = [msg1, msg2]"
    by (simp_all add: chat_chan_def ticket_chan_def)
  from transcript_order_and_format
    [of "[msg1, msg2]" msg1 ascii_int cfg_staff "pressed_by alice" alice_panel 100 guild3 chat_chan]
  show ?thesis
    using o a l n msg1_line msg2_line by simp
qed


end
